theory Spec2Isabelle
  imports Complex_Main "HOL-Library.Multiset"
begin

section \<open>Gestion locative: data model\<close>

text \<open>
  The program is a Flask application over four SQLAlchemy tables (\<open>Bien\<close>,
  \<open>Locataire\<close>, \<open>Bailleur\<close>, \<open>Paiement\<close>). Each model class is a record,
  each table a list of rows in storage order, and the database the record of the four
  tables. Field names carry a one-letter prefix of their class, since several classes
  share \<open>id\<close> and \<open>nom\<close>.

  Conventions of the embedding:
  \<^item> a Python \<open>str\<close> is a \<open>string\<close>, one \<open>char\<close> per code point; the model
    therefore covers the strings whose code points lie below 256, and \<open>length\<close> is
    Python's \<open>len\<close> on them;
  \<^item> a Python \<open>int\<close> is an \<open>int\<close>;
  \<^item> the \<open>Float\<close> columns of the stored rows (amounts, rents, charges) are rationals:
    finite values with exact sums and the usual order, rounding left out;
  \<^item> a float parsed from a form, which the validators read, is a \<open>pyfloat\<close>: a
    finite value, an infinity or NaN, since \<open>float(s)\<close> accepts the texts \<open>nan\<close>
    and \<open>inf\<close> and every comparison with NaN is false;
  \<^item> \<open>None\<close> is \<open>None\<close> of an option type, for the dictionary fields and nullable
    values that the source tests against \<open>None\<close> or for truth;
  \<^item> a \<open>datetime.date\<close> is a record of year, month and day, compared in that order;
  \<^item> the columns that the forms always fill (charges, deposit, payment day, the active
    flag, the texts) are plain values in the rows; the optional fields of a form are
    options in the dictionaries the validators read.
\<close>

record date =
  year :: int
  month :: int
  day :: int

definition date_lt :: "date \<Rightarrow> date \<Rightarrow> bool" where
  "date_lt a b =
     (year a < year b \<or>
      (year a = year b \<and> (month a < month b \<or> (month a = month b \<and> day a < day b))))"

record bien =
  b_id :: int
  b_nom :: string
  b_type_bien :: string
  b_adresse :: string
  b_surface :: "rat option"
  b_description :: string
  b_charges_mensuelles :: rat
  b_date_acquisition :: "date option"

record locataire =
  l_id :: int
  l_nom :: string
  l_prenom :: "string option"
  l_email :: string
  l_telephone :: string
  l_date_naissance :: "date option"
  l_raison_sociale :: "string option"
  l_siret :: "string option"
  l_dirigeant :: "string option"
  l_bien_id :: int
  l_date_debut_bail :: date
  l_date_fin_bail :: "date option"
  l_loyer_mensuel :: rat
  l_depot_garantie :: rat
  l_jour_paiement :: int
  l_actif :: bool

record bailleur =
  ba_id :: int
  ba_nom :: string
  ba_adresse :: string
  ba_code_postal :: string
  ba_ville :: string
  ba_telephone :: string
  ba_email :: string
  ba_siret :: string

record paiement =
  p_id :: int
  p_locataire_id :: int
  p_montant :: rat
  p_date_paiement :: date
  p_mois_concerne :: string
  p_categorie :: string
  p_mode_paiement :: string
  p_commentaire :: string
  p_quittance_generee :: bool

record database =
  biens :: "bien list"
  locataires :: "locataire list"
  bailleurs :: "bailleur list"
  paiements :: "paiement list"

text \<open>
  The messages the validators and handlers return or flash, one constructor per distinct
  message text of the source:
  \<^item> \<open>SelectBien\<close>: "Veuillez selectionner un bien."
  \<^item> \<open>BienIntrouvable\<close>: "Le bien selectionne est introuvable."
  \<^item> \<open>RaisonSocialeObligatoire\<close>: "La raison sociale est obligatoire pour un local commercial."
  \<^item> \<open>SiretObligatoire\<close>: "Le numero SIRET est obligatoire pour un local commercial."
  \<^item> \<open>SiretQuatorzeChiffres\<close>: "Le numero SIRET doit contenir exactement 14 chiffres."
  \<^item> \<open>NomPrenomObligatoires\<close>: "Le nom et le prenom sont obligatoires."
  \<^item> \<open>DateDebutObligatoire\<close>: "La date de debut de bail est obligatoire."
  \<^item> \<open>LoyerPositif\<close>: "Le loyer mensuel doit etre un nombre positif."
  \<^item> \<open>DepotNegatif\<close>: "Le depot de garantie ne peut pas etre negatif."
  \<^item> \<open>JourPaiementPlage\<close>: "Le jour de paiement doit etre entre 1 et 28."
  \<^item> \<open>DateFinAvantDebut\<close>: "La date de fin de bail doit etre posterieure a la date de debut."
  \<^item> \<open>SelectLocataire\<close>: "Veuillez selectionner un locataire."
  \<^item> \<open>MontantPositif\<close>: "Le montant doit etre un nombre positif."
  \<^item> \<open>DatePaiementObligatoire\<close>: "La date de paiement est obligatoire."
  \<^item> \<open>MoisConcerneObligatoire\<close>: "Le mois concerne est obligatoire."
  \<^item> \<open>FormatMoisInvalide\<close>: "Format de mois invalide."
\<close>

datatype message =
    SelectBien
  | BienIntrouvable
  | RaisonSocialeObligatoire
  | SiretObligatoire
  | SiretQuatorzeChiffres
  | NomPrenomObligatoires
  | DateDebutObligatoire
  | LoyerPositif
  | DepotNegatif
  | JourPaiementPlage
  | DateFinAvantDebut
  | SelectLocataire
  | MontantPositif
  | DatePaiementObligatoire
  | MoisConcerneObligatoire
  | FormatMoisInvalide

section \<open>Floats read from a form\<close>

text \<open>
  The values of \<open>_safe_float\<close>: \<open>float(value)\<close> gives a finite number, one of the
  two infinities or NaN. \<open>float_lt\<close> and \<open>float_le\<close> are the comparisons
  \<open><\<close> and \<open><=\<close> of Python on floats: false as soon as one side is NaN, the
  usual order otherwise. The integer 0 of the source is \<open>Fini 0\<close> in a comparison.
\<close>

datatype pyfloat = Fini rat | PInf | NInf | NaN

fun float_lt :: "pyfloat \<Rightarrow> pyfloat \<Rightarrow> bool" where
  "float_lt NaN y = False"
| "float_lt x NaN = False"
| "float_lt (Fini a) (Fini b) = (a < b)"
| "float_lt (Fini a) PInf = True"
| "float_lt (Fini a) NInf = False"
| "float_lt PInf y = False"
| "float_lt NInf NInf = False"
| "float_lt NInf y = True"

fun float_le :: "pyfloat \<Rightarrow> pyfloat \<Rightarrow> bool" where
  "float_le NaN y = False"
| "float_le x NaN = False"
| "float_le (Fini a) (Fini b) = (a \<le> b)"
| "float_le (Fini a) PInf = True"
| "float_le (Fini a) NInf = False"
| "float_le PInf PInf = True"
| "float_le PInf y = False"
| "float_le NInf y = True"

section \<open>Payment validation\<close>

text \<open>
  The dictionary built by \<open>_parse_paiement_form\<close>: the three parsed fields are
  \<open>None\<close> when the form value is empty or does not parse, the others are strings.
\<close>

record paiement_data =
  pd_locataire_id :: "int option"
  pd_montant :: "pyfloat option"
  pd_date_paiement :: "date option"
  pd_mois_concerne :: string
  pd_categorie :: string
  pd_mode_paiement :: string
  pd_commentaire :: string

text \<open>
  Python's truth test \<open>not v\<close> on an optional integer: \<open>None\<close> and \<open>0\<close> are
  both false.
\<close>

definition falsy_int :: "int option \<Rightarrow> bool" where
  "falsy_int v = (case v of None \<Rightarrow> True | Some n \<Rightarrow> n = 0)"

text \<open>\<open>_validate_paiement_data\<close>; a date object is always true, an empty string false.\<close>

definition validate_paiement_data :: "paiement_data \<Rightarrow> message option" where
  "validate_paiement_data data =
     (if falsy_int (pd_locataire_id data) then Some SelectLocataire
      else if (case pd_montant data of None \<Rightarrow> True | Some m \<Rightarrow> float_le m (Fini 0))
        then Some MontantPositif
      else if pd_date_paiement data = None then Some DatePaiementObligatoire
      else if pd_mois_concerne data = [] then Some MoisConcerneObligatoire
      else None)"

section \<open>Tenant validation\<close>

text \<open>
  The dictionary built by \<open>_parse_locataire_form\<close>. \<open>nom\<close> is always a string; every
  other field the validator reads may be \<open>None\<close>.
\<close>

record locataire_data =
  ld_nom :: string
  ld_prenom :: "string option"
  ld_email :: string
  ld_telephone :: string
  ld_date_naissance :: "date option"
  ld_raison_sociale :: "string option"
  ld_siret :: "string option"
  ld_dirigeant :: "string option"
  ld_bien_id :: "int option"
  ld_date_debut_bail :: "date option"
  ld_date_fin_bail :: "date option"
  ld_loyer_mensuel :: "pyfloat option"
  ld_depot_garantie :: "pyfloat option"
  ld_jour_paiement :: "int option"

text \<open>Python's truth test on an optional string: \<open>None\<close> and \<open>''\<close> are false.\<close>

definition falsy_str :: "string option \<Rightarrow> bool" where
  "falsy_str v = (case v of None \<Rightarrow> True | Some s \<Rightarrow> s = [])"

text \<open>
  \<open>str.isdigit\<close>: the string is not empty and each of its characters is a digit in
  Python's sense. Below code point 256 these are \<open>0\<close> to \<open>9\<close> and the three
  superscript digits U+00B2, U+00B3 and U+00B9.
\<close>

definition isdigit_char :: "char \<Rightarrow> bool" where
  "isdigit_char c =
     (let n = (of_char c :: nat) in (48 \<le> n \<and> n \<le> 57) \<or> n = 178 \<or> n = 179 \<or> n = 185)"

definition str_isdigit :: "string \<Rightarrow> bool" where
  "str_isdigit s = (s \<noteq> [] \<and> list_all isdigit_char s)"

text \<open>\<open>Bien.query.get(id)\<close>: the row with that primary key, or \<open>None\<close>.\<close>

definition Bien_query_get :: "database \<Rightarrow> int \<Rightarrow> bien option" where
  "Bien_query_get db i = find (\<lambda>b. b_id b = i) (biens db)"

text \<open>
  \<open>_validate_locataire_data\<close> in three parts, in the order of the source: the block
  that depends on the type of the property (\<open>validate_selon_type\<close>), the checks of
  the lease fields that follow it (\<open>validate_bail\<close>), and the function itself, which
  first resolves the property.
\<close>

definition validate_selon_type :: "bien \<Rightarrow> locataire_data \<Rightarrow> message option" where
  "validate_selon_type bien data =
     (if b_type_bien bien = ''local_commercial'' then
        (if falsy_str (ld_raison_sociale data) then Some RaisonSocialeObligatoire
         else (case ld_siret data of
                 None \<Rightarrow> Some SiretObligatoire
               | Some siret \<Rightarrow>
                   if siret = [] then Some SiretObligatoire
                   else if length siret \<noteq> 14 \<or> \<not> str_isdigit siret then Some SiretQuatorzeChiffres
                   else None))
      else
        (if ld_nom data = [] \<or> falsy_str (ld_prenom data) then Some NomPrenomObligatoires
         else None))"

definition validate_bail :: "locataire_data \<Rightarrow> message option" where
  "validate_bail data =
     (if ld_date_debut_bail data = None then Some DateDebutObligatoire
      else if (case ld_loyer_mensuel data of None \<Rightarrow> True | Some x \<Rightarrow> float_lt x (Fini 0))
        then Some LoyerPositif
      else if (case ld_depot_garantie data of None \<Rightarrow> False | Some x \<Rightarrow> float_lt x (Fini 0))
        then Some DepotNegatif
      else if (case ld_jour_paiement data of None \<Rightarrow> False | Some j \<Rightarrow> j < 1 \<or> j > 28)
        then Some JourPaiementPlage
      else if (case ld_date_fin_bail data of
                 None \<Rightarrow> False
               | Some fin \<Rightarrow> (case ld_date_debut_bail data of
                               None \<Rightarrow> False
                             | Some debut \<Rightarrow> date_lt fin debut))
        then Some DateFinAvantDebut
      else None)"

definition validate_locataire_data :: "database \<Rightarrow> locataire_data \<Rightarrow> message option" where
  "validate_locataire_data db data =
     (case ld_bien_id data of
        None \<Rightarrow> Some SelectBien
      | Some i \<Rightarrow>
          if i = 0 then Some SelectBien
          else (case Bien_query_get db i of
                  None \<Rightarrow> Some BienIntrouvable
                | Some bien \<Rightarrow>
                    (case validate_selon_type bien data of
                       Some erreur \<Rightarrow> Some erreur
                     | None \<Rightarrow> validate_bail data)))"

section \<open>Relationships and derived fields\<close>

text \<open>
  The relationships of the models: \<open>loc.bien\<close> is the property with the tenant's
  \<open>bien_id\<close> (or \<open>None\<close>), \<open>loc.paiements\<close> the payments with the tenant's id,
  \<open>bien.locataires\<close> the tenants with the property's id.
\<close>

definition locataire_bien :: "database \<Rightarrow> locataire \<Rightarrow> bien option" where
  "locataire_bien db loc = find (\<lambda>b. b_id b = l_bien_id loc) (biens db)"

definition locataire_paiements :: "database \<Rightarrow> locataire \<Rightarrow> paiement list" where
  "locataire_paiements db loc = filter (\<lambda>p. p_locataire_id p = l_id loc) (paiements db)"

definition bien_locataires :: "database \<Rightarrow> bien \<Rightarrow> locataire list" where
  "bien_locataires db bien = filter (\<lambda>l. l_bien_id l = b_id bien) (locataires db)"

text \<open>\<open>Locataire.loyer_total\<close>: the charges are 0 when the tenant has no property.\<close>

definition loyer_total :: "database \<Rightarrow> locataire \<Rightarrow> rat" where
  "loyer_total db loc =
     (let charges = (case locataire_bien db loc of
                       Some bien \<Rightarrow> b_charges_mensuelles bien
                     | None \<Rightarrow> 0)
      in l_loyer_mensuel loc + charges)"

text \<open>\<open>Bien.locataire_actuel\<close>: the first tenant of the property flagged active.\<close>

definition locataire_actuel :: "database \<Rightarrow> bien \<Rightarrow> locataire option" where
  "locataire_actuel db bien = find l_actif (bien_locataires db bien)"

section \<open>Dates and strings of the runtime\<close>

text \<open>
  \<open>str(n)\<close> for a natural number and for an integer: the decimal digits, most
  significant first, with a minus sign for a negative integer.
\<close>

definition digit_char :: "nat \<Rightarrow> char" where
  "digit_char d = char_of (48 + d)"

fun str_nat :: "nat \<Rightarrow> string" where
  "str_nat n = (if n < 10 then [digit_char n] else str_nat (n div 10) @ [digit_char (n mod 10)])"

definition str_int :: "int \<Rightarrow> string" where
  "str_int i = (if i < 0 then CHR ''-'' # str_nat (nat (- i)) else str_nat (nat i))"

text \<open>
  \<open>d.strftime('%Y-%m')\<close>: the year in decimal, a dash, the month on two digits. The
  year is printed as \<open>str\<close> prints it, which is what every platform does from year 1000
  on (four digits); before year 1000 platforms differ on padding.
\<close>

definition strftime_Ym :: "date \<Rightarrow> string" where
  "strftime_Ym d =
     str_int (year d) @ ''-'' @
     [digit_char (nat (month d) div 10), digit_char (nat (month d) mod 10)]"

text \<open>\<open>calendar.isleap\<close> and the number of days \<open>calendar.monthrange\<close> gives.\<close>

definition isleap :: "int \<Rightarrow> bool" where
  "isleap y = (y mod 4 = 0 \<and> (y mod 100 \<noteq> 0 \<or> y mod 400 = 0))"

definition monthrange_days :: "int \<Rightarrow> int \<Rightarrow> int" where
  "monthrange_days y m =
     (if m = 2 then (if isleap y then 29 else 28)
      else if m = 4 \<or> m = 6 \<or> m = 9 \<or> m = 11 then 30
      else 31)"

text \<open>
  \<open>d - relativedelta(months=n)\<close> of \<open>dateutil\<close>, for \<open>n \<ge> 0\<close>. The delta is
  normalised to \<open>n div 12\<close> years and \<open>n mod 12\<close> months; the month is moved and
  wrapped once, the day is cut to the length of the month reached, and building the date
  raises \<open>ValueError\<close> (here \<open>None\<close>) when the year leaves 1 to 9999.
\<close>

definition date_minus_months :: "date \<Rightarrow> int \<Rightarrow> date option" where
  "date_minus_months d n =
     (let y0 = year d - n div 12;
          m0 = month d - n mod 12;
          y = (if m0 > 12 then y0 + 1 else if m0 < 1 then y0 - 1 else y0);
          m = (if m0 > 12 then m0 - 12 else if m0 < 1 then m0 + 12 else m0);
          j = min (monthrange_days y m) (day d)
      in if 1 \<le> y \<and> y \<le> 9999 then Some \<lparr>year = y, month = m, day = j\<rparr> else None)"

text \<open>
  The order of SQLite on text (binary collation): lexicographic on the characters, a
  proper prefix first. \<open>str_le a b\<close> is \<open>a <= b\<close>.
\<close>

fun str_le :: "string \<Rightarrow> string \<Rightarrow> bool" where
  "str_le [] b = True"
| "str_le (x # a) [] = False"
| "str_le (x # a) (y # b) =
     ((of_char x :: nat) < of_char y \<or> (x = y \<and> str_le a b))"

text \<open>The constants of the source; \<open>CHR 0xE9\<close>, \<open>0xE8\<close> and \<open>0xFB\<close> are the accented letters.\<close>

definition CATEGORIES_PAIEMENT :: "(string \<times> string) list" where
  "CATEGORIES_PAIEMENT =
     [(''loyer'', ''Loyer''),
      (''eau_assainissement'', ''Eau et assainissement''),
      (''ordures_menageres'', ''Ordures m'' @ [CHR 0xE9] @ ''nag'' @ [CHR 0xE8] @ ''res''),
      (''taxe_fonciere'', ''Taxe fonci'' @ [CHR 0xE8] @ ''re'')]"

definition MOIS_NOMS :: "string list" where
  "MOIS_NOMS =
     [[], ''Janvier'', ''F'' @ [CHR 0xE9] @ ''vrier'', ''Mars'', ''Avril'', ''Mai'', ''Juin'',
      ''Juillet'', ''Ao'' @ [CHR 0xFB] @ ''t'', ''Septembre'', ''Octobre'', ''Novembre'',
      ''D'' @ [CHR 0xE9] @ ''cembre'']"

definition MOIS_NOMS_COURTS :: "string list" where
  "MOIS_NOMS_COURTS =
     [[], ''Jan'', ''F'' @ [CHR 0xE9] @ ''v'', ''Mar'', ''Avr'', ''Mai'', ''Jun'',
      ''Jul'', ''Ao'' @ [CHR 0xFB], ''Sep'', ''Oct'', ''Nov'', ''D'' @ [CHR 0xE9] @ ''c'']"

section \<open>Dashboard\<close>

text \<open>What \<open>index\<close> hands to its template.\<close>

record dashboard =
  biens_vus :: "bien list"
  locataires_actifs :: "locataire list"
  revenus_mensuels :: rat
  total_percu :: rat
  loyers_en_retard :: "locataire list"
  mois_actuel :: string

text \<open>
  \<open>index\<close>, with the date \<open>date.today()\<close> returns as a parameter. The loop that
  collects the late tenants keeps, in order, the active tenants for which both nested
  tests hold.
\<close>

definition index :: "database \<Rightarrow> date \<Rightarrow> dashboard" where
  "index db today =
     (let actifs = filter l_actif (locataires db);
          revenus = sum_list (map (loyer_total db) actifs);
          mois = strftime_Ym today;
          paiements_mois = filter (\<lambda>p. p_mois_concerne p = mois) (paiements db);
          percu = sum_list (map p_montant paiements_mois);
          en_retard =
            filter (\<lambda>loc.
                \<not> list_ex (\<lambda>p. p_mois_concerne p = mois) (locataire_paiements db loc)
                \<and> day today > l_jour_paiement loc) actifs
      in \<lparr>biens_vus = biens db, locataires_actifs = actifs, revenus_mensuels = revenus,
          total_percu = percu, loyers_en_retard = en_retard, mois_actuel = mois\<rparr>)"

section \<open>Statistics\<close>

text \<open>
  A query \<open>SELECT key, sum(montant) ... GROUP BY key\<close> over a list of payments: one
  row per distinct key, with the sum of the amounts of the payments that have it.
\<close>

definition group_by_sum :: "(paiement \<Rightarrow> 'k) \<Rightarrow> paiement list \<Rightarrow> ('k \<times> rat) list" where
  "group_by_sum cle ps =
     map (\<lambda>k. (k, sum_list (map p_montant (filter (\<lambda>p. cle p = k) ps))))
       (remdups (map cle ps))"

text \<open>\<open>d.get(k, 0) or 0\<close> on a dictionary of sums.\<close>

definition get_or_0 :: "('k \<rightharpoonup> rat) \<Rightarrow> 'k \<Rightarrow> rat" where
  "get_or_0 d k = (case d k of None \<Rightarrow> 0 | Some v \<Rightarrow> if v = 0 then 0 else v)"

record revenu_mensuel =
  rm_mois :: string
  rm_total :: rat

text \<open>
  The first half of \<open>statistiques\<close>. \<open>revenus_dict\<close> is the dictionary of the
  grouped query restricted to the tokens at or after \<open>mois_min\<close>;
  \<open>revenus_boucle\<close> is the loop over \<open>range(11, -1, -1)\<close>, which stops with
  \<open>None\<close> when a date cannot be built.
\<close>

definition revenus_dict :: "database \<Rightarrow> string \<Rightarrow> (string \<rightharpoonup> rat)" where
  "revenus_dict db mois_min =
     map_of (group_by_sum p_mois_concerne
       (filter (\<lambda>p. str_le mois_min (p_mois_concerne p)) (paiements db)))"

fun revenus_boucle :: "date \<Rightarrow> (string \<rightharpoonup> rat) \<Rightarrow> int list \<Rightarrow> revenu_mensuel list option" where
  "revenus_boucle date_courante d [] = Some []"
| "revenus_boucle date_courante d (i # rest) =
     (case date_minus_months date_courante i of
        None \<Rightarrow> None
      | Some mois_date \<Rightarrow>
          (case revenus_boucle date_courante d rest of
             None \<Rightarrow> None
           | Some suite \<Rightarrow>
               Some (\<lparr>rm_mois = MOIS_NOMS_COURTS ! nat (month mois_date) @ '' '' @
                                str_int (year mois_date),
                      rm_total = get_or_0 d (strftime_Ym mois_date)\<rparr> # suite)))"

definition statistiques_revenus :: "database \<Rightarrow> date \<Rightarrow> revenu_mensuel list option" where
  "statistiques_revenus db date_courante =
     (case date_minus_months date_courante 12 of
        None \<Rightarrow> None
      | Some date_12_mois \<Rightarrow>
          revenus_boucle date_courante (revenus_dict db (strftime_Ym date_12_mois))
            (rev [0 .. 11]))"

record bien_stat =
  bs_bien :: bien
  bs_locataire :: "locataire option"
  bs_total_percu :: rat

text \<open>The second half of \<open>statistiques\<close>: one entry per property, in table order.\<close>

definition totaux_par_locataire :: "database \<Rightarrow> (int \<rightharpoonup> rat)" where
  "totaux_par_locataire db = map_of (group_by_sum p_locataire_id (paiements db))"

definition statistiques_biens :: "database \<Rightarrow> bien_stat list" where
  "statistiques_biens db =
     map (\<lambda>bien.
        (let loc = locataire_actuel db bien;
             percu = (case loc of
                        Some l \<Rightarrow> get_or_0 (totaux_par_locataire db) (l_id l)
                      | None \<Rightarrow> 0)
         in \<lparr>bs_bien = bien, bs_locataire = loc, bs_total_percu = percu\<rparr>))
       (biens db)"

definition statistiques :: "database \<Rightarrow> date \<Rightarrow> (revenu_mensuel list \<times> bien_stat list) option" where
  "statistiques db date_courante =
     (case statistiques_revenus db date_courante of
        None \<Rightarrow> None
      | Some revenus \<Rightarrow> Some (revenus, statistiques_biens db))"

section \<open>Receipts\<close>

text \<open>\<open>s.split(sep)\<close> for a separator of one character: always at least one part.\<close>

fun str_split :: "char \<Rightarrow> string \<Rightarrow> string list" where
  "str_split sep [] = [[]]"
| "str_split sep (c # cs) =
     (if c = sep then [] # str_split sep cs
      else (case str_split sep cs of
              [] \<Rightarrow> [[c]]
            | part # parts \<Rightarrow> (c # part) # parts))"

text \<open>
  \<open>int(s)\<close> on a string, in base 10, as CPython reads it: white space is dropped at
  both ends (below code point 256 the characters 9 to 13, 32, 0x85 and 0xA0), an optional
  sign follows, then decimal digits \<open>0\<close> to \<open>9\<close> with single underscores allowed
  between two digits. More than 4300 digits raise \<open>ValueError\<close> (the default limit of
  the interpreter). \<open>None\<close> stands for \<open>ValueError\<close>.
\<close>

definition int_space :: "char \<Rightarrow> bool" where
  "int_space c =
     (let n = (of_char c :: nat) in (9 \<le> n \<and> n \<le> 13) \<or> n = 32 \<or> n = 133 \<or> n = 160)"

definition int_strip :: "string \<Rightarrow> string" where
  "int_strip s = rev (dropWhile int_space (rev (dropWhile int_space s)))"

definition ascii_digit :: "char \<Rightarrow> bool" where
  "ascii_digit c = (let n = (of_char c :: nat) in 48 \<le> n \<and> n \<le> 57)"

fun int_body :: "string \<Rightarrow> bool" where
  "int_body [] = False"
| "int_body [c] = ascii_digit c"
| "int_body (c # d # cs) =
     (ascii_digit c \<and> (if d = CHR ''_'' then int_body cs else int_body (d # cs)))"

definition int_digits :: "string \<Rightarrow> string" where
  "int_digits body = filter (\<lambda>c. c \<noteq> CHR ''_'') body"

definition digits_value :: "string \<Rightarrow> nat" where
  "digits_value ds = foldl (\<lambda>acc c. 10 * acc + (of_char c - 48)) 0 ds"

definition max_str_digits :: nat where
  "max_str_digits = 4300"

definition py_int :: "string \<Rightarrow> int option" where
  "py_int s =
     (let t = int_strip s;
          negatif = (case t of [] \<Rightarrow> False | c # r \<Rightarrow> c = CHR ''-'');
          body = (case t of [] \<Rightarrow> [] | c # r \<Rightarrow> if c = CHR ''-'' \<or> c = CHR ''+'' then r else t)
      in if int_body body \<and> length (int_digits body) \<le> max_str_digits
         then Some (if negatif then - int (digits_value (int_digits body))
                    else int (digits_value (int_digits body)))
         else None)"

text \<open>
  The \<open>try\<close> block of \<open>generer_quittance\<close>: the year as written and the month number,
  or \<open>None\<close> when the block raises \<open>ValueError\<close>.
\<close>

definition parse_mois :: "string \<Rightarrow> (string \<times> int) option" where
  "parse_mois mois =
     (case str_split CHR ''-'' mois of
        [annee, m] \<Rightarrow>
          (case py_int m of
             None \<Rightarrow> None
           | Some mois_num \<Rightarrow>
               (case py_int annee of
                  None \<Rightarrow> None
                | Some a \<Rightarrow> if mois_num < 1 \<or> mois_num > 12 then None else Some (annee, mois_num)))
      | _ \<Rightarrow> None)"

text \<open>
  The dictionary \<open>paiements_par_categorie\<close>, as the list of its items in insertion
  order. \<open>ajoute_categorie\<close> is one turn of the loop: a new key gets the list of the
  one payment, a known key has the payment appended to its list.
\<close>

fun ajoute_categorie :: "(string \<times> paiement list) list \<Rightarrow> paiement \<Rightarrow> (string \<times> paiement list) list" where
  "ajoute_categorie [] p = [(p_categorie p, [p])]"
| "ajoute_categorie ((k, ps) # rest) p =
     (if k = p_categorie p then (k, ps @ [p]) # rest
      else (k, ps) # ajoute_categorie rest p)"

definition paiements_par_categorie :: "paiement list \<Rightarrow> (string \<times> paiement list) list" where
  "paiements_par_categorie ps = foldl ajoute_categorie [] ps"

record quittance =
  q_locataire :: locataire
  q_bailleur :: "bailleur option"
  q_paiements :: "paiement list"
  q_paiements_par_categorie :: "(string \<times> paiement list) list"
  q_total_paiements :: rat
  q_categories_labels :: "(string \<times> string) list"
  q_mois :: string
  q_mois_nom :: string
  q_annee :: string
  q_date_generation :: date

text \<open>
  The three ways a handler ends: \<open>get_or_404\<close> found no row, a message is flashed and
  the client redirected, or a template is rendered with its data.
\<close>

datatype 'a reponse = NotFound404 | FlashRedirect message | Render 'a

definition Locataire_query_get :: "database \<Rightarrow> int \<Rightarrow> locataire option" where
  "Locataire_query_get db i = find (\<lambda>l. l_id l = i) (locataires db)"

definition Bailleur_query_first :: "database \<Rightarrow> bailleur option" where
  "Bailleur_query_first db = (case bailleurs db of [] \<Rightarrow> None | b # rest \<Rightarrow> Some b)"

definition generer_quittance :: "database \<Rightarrow> date \<Rightarrow> int \<Rightarrow> string \<Rightarrow> quittance reponse" where
  "generer_quittance db today locataire_id mois =
     (case Locataire_query_get db locataire_id of
        None \<Rightarrow> NotFound404
      | Some loc \<Rightarrow>
          (case parse_mois mois of
             None \<Rightarrow> FlashRedirect FormatMoisInvalide
           | Some (annee, mois_num) \<Rightarrow>
               (let ps = filter (\<lambda>p. p_locataire_id p = locataire_id \<and> p_mois_concerne p = mois)
                           (paiements db)
                in Render
                     \<lparr>q_locataire = loc,
                      q_bailleur = Bailleur_query_first db,
                      q_paiements = ps,
                      q_paiements_par_categorie = paiements_par_categorie ps,
                      q_total_paiements = sum_list (map p_montant ps),
                      q_categories_labels = CATEGORIES_PAIEMENT,
                      q_mois = mois,
                      q_mois_nom = MOIS_NOMS ! nat mois_num,
                      q_annee = annee,
                      q_date_generation = today\<rparr>)))"

section \<open>Statements of the specification\<close>

text \<open>
  The specification describes each validator as a list of checks made in order, the
  message of the first failing check being the result. A check is the pair of its truth
  and its message.
\<close>

fun first_failing :: "(bool \<times> message) list \<Rightarrow> message option" where
  "first_failing [] = None"
| "first_failing ((passes, m) # checks) = (if passes then first_failing checks else Some m)"

text \<open>
  The checks of a payment as the specification words them: tenant id present, amount
  present and positive, payment date present, month token not empty.
\<close>

definition paiement_checks_spec :: "paiement_data \<Rightarrow> (bool \<times> message) list" where
  "paiement_checks_spec data =
     [(pd_locataire_id data \<noteq> None, SelectLocataire),
      ((case pd_montant data of None \<Rightarrow> False | Some m \<Rightarrow> float_lt (Fini 0) m),
         MontantPositif),
      (pd_date_paiement data \<noteq> None, DatePaiementObligatoire),
      (pd_mois_concerne data \<noteq> [], MoisConcerneObligatoire)]"

text \<open>The same checks, the first one asking for a tenant id that is present and not 0.\<close>

definition paiement_checks :: "paiement_data \<Rightarrow> (bool \<times> message) list" where
  "paiement_checks data =
     [(pd_locataire_id data \<noteq> None \<and> pd_locataire_id data \<noteq> Some 0, SelectLocataire),
      ((case pd_montant data of None \<Rightarrow> False | Some m \<Rightarrow> float_lt (Fini 0) m),
         MontantPositif),
      (pd_date_paiement data \<noteq> None, DatePaiementObligatoire),
      (pd_mois_concerne data \<noteq> [], MoisConcerneObligatoire)]"

text \<open>
  A SIRET as the specification wants it: exactly 14 characters, all of them decimal
  digits \<open>0\<close> to \<open>9\<close>.
\<close>

definition siret_valide :: "string \<Rightarrow> bool" where
  "siret_valide s = (length s = 14 \<and> list_all ascii_digit s)"

text \<open>
  The checks of a tenant as the specification words them, for a resolved property. First
  those that depend on the type of the property: for commercial premises a non-empty
  company name, a non-empty SIRET, a SIRET of exactly 14 digits; for any other type a
  non-empty last name and first name (one check, one message).
\<close>

definition type_checks :: "bien \<Rightarrow> locataire_data \<Rightarrow> (bool \<times> message) list" where
  "type_checks bien data =
     (if b_type_bien bien = ''local_commercial'' then
        [(ld_raison_sociale data \<noteq> None \<and> ld_raison_sociale data \<noteq> Some [],
            RaisonSocialeObligatoire),
         (ld_siret data \<noteq> None \<and> ld_siret data \<noteq> Some [], SiretObligatoire),
         ((case ld_siret data of None \<Rightarrow> False | Some s \<Rightarrow> siret_valide s),
            SiretQuatorzeChiffres)]
      else
        [(ld_nom data \<noteq> [] \<and> ld_prenom data \<noteq> None \<and> ld_prenom data \<noteq> Some [],
            NomPrenomObligatoires)])"

text \<open>
  Then the checks of the lease fields, for every tenant: lease start date present, monthly
  rent present and at least 0, deposit (if present) at least 0, payment day (if present)
  from 1 to 28, lease end date (if present) not before the lease start date.
\<close>

definition bail_checks :: "locataire_data \<Rightarrow> (bool \<times> message) list" where
  "bail_checks data =
     [(ld_date_debut_bail data \<noteq> None, DateDebutObligatoire),
      ((case ld_loyer_mensuel data of None \<Rightarrow> False | Some x \<Rightarrow> float_le (Fini 0) x),
         LoyerPositif),
      ((case ld_depot_garantie data of None \<Rightarrow> True | Some x \<Rightarrow> float_le (Fini 0) x),
         DepotNegatif),
      ((case ld_jour_paiement data of None \<Rightarrow> True | Some j \<Rightarrow> 1 \<le> j \<and> j \<le> 28),
         JourPaiementPlage),
      ((case ld_date_fin_bail data of
          None \<Rightarrow> True
        | Some fin \<Rightarrow> (case ld_date_debut_bail data of
                        None \<Rightarrow> True
                      | Some debut \<Rightarrow> \<not> date_lt fin debut)),
         DateFinAvantDebut)]"

definition locataire_checks :: "bien \<Rightarrow> locataire_data \<Rightarrow> (bool \<times> message) list" where
  "locataire_checks bien data = type_checks bien data @ bail_checks data"

text \<open>
  The forms on which the tests of the source and the checks of the specification can be
  compared term by term: the rent and the deposit are not NaN, and the SIRET has no
  character that \<open>str.isdigit\<close> takes for a digit without it being a decimal digit.
\<close>

definition nombres_et_chiffres :: "locataire_data \<Rightarrow> bool" where
  "nombres_et_chiffres data =
     (ld_loyer_mensuel data \<noteq> Some NaN \<and> ld_depot_garantie data \<noteq> Some NaN \<and>
      (case ld_siret data of
         None \<Rightarrow> True
       | Some s \<Rightarrow> list_all (\<lambda>c. isdigit_char c = ascii_digit c) s))"

text \<open>The two properties and the tenant forms used as worked examples below.\<close>

definition ex_appartement :: bien where
  "ex_appartement =
     \<lparr>b_id = 1, b_nom = ''Appartement Centre-Ville'', b_type_bien = ''appartement'',
      b_adresse = ''12 rue de la Republique, 75001 Paris'', b_surface = Some 65,
      b_description = ''Appartement T3 lumineux avec balcon'', b_charges_mensuelles = 150,
      b_date_acquisition = Some \<lparr>year = 2020, month = 1, day = 15\<rparr>\<rparr>"

definition ex_local :: bien where
  "ex_local =
     \<lparr>b_id = 2, b_nom = ''Local Commercial'', b_type_bien = ''local_commercial'',
      b_adresse = ''45 avenue des Champs, 75008 Paris'', b_surface = Some 120,
      b_description = ''Local commercial avec vitrine'', b_charges_mensuelles = 200,
      b_date_acquisition = Some \<lparr>year = 2018, month = 6, day = 1\<rparr>\<rparr>"

definition ex_form :: locataire_data where
  "ex_form =
     \<lparr>ld_nom = [], ld_prenom = None, ld_email = [], ld_telephone = [],
      ld_date_naissance = None, ld_raison_sociale = Some ''Boulangerie Martin'',
      ld_siret = Some ''12345678901234'', ld_dirigeant = None, ld_bien_id = Some 2,
      ld_date_debut_bail = Some \<lparr>year = 2024, month = 1, day = 1\<rparr>,
      ld_date_fin_bail = None, ld_loyer_mensuel = Some (Fini 1200),
      ld_depot_garantie = Some (Fini 0),
      ld_jour_paiement = Some 5\<rparr>"

text \<open>
  A database for the worked examples: the two properties, a tenant of the flat (rent 800,
  due on the 5th), a former and a current tenant of the shop, and four payments.
\<close>

definition ex_alice :: locataire where
  "ex_alice =
     \<lparr>l_id = 1, l_nom = ''Durand'', l_prenom = Some ''Alice'', l_email = [], l_telephone = [],
      l_date_naissance = None, l_raison_sociale = None, l_siret = None, l_dirigeant = None,
      l_bien_id = 1, l_date_debut_bail = \<lparr>year = 2023, month = 9, day = 1\<rparr>,
      l_date_fin_bail = None, l_loyer_mensuel = 800, l_depot_garantie = 800,
      l_jour_paiement = 5, l_actif = True\<rparr>"

definition ex_ancien :: locataire where
  "ex_ancien =
     \<lparr>l_id = 2, l_nom = [], l_prenom = None, l_email = [], l_telephone = [],
      l_date_naissance = None, l_raison_sociale = Some ''Fleurs du Midi'',
      l_siret = Some ''98765432109876'', l_dirigeant = None,
      l_bien_id = 2, l_date_debut_bail = \<lparr>year = 2019, month = 1, day = 1\<rparr>,
      l_date_fin_bail = Some \<lparr>year = 2023, month = 12, day = 31\<rparr>,
      l_loyer_mensuel = 1000, l_depot_garantie = 0, l_jour_paiement = 1, l_actif = False\<rparr>"

definition ex_martin :: locataire where
  "ex_martin =
     \<lparr>l_id = 3, l_nom = [], l_prenom = None, l_email = [], l_telephone = [],
      l_date_naissance = None, l_raison_sociale = Some ''Boulangerie Martin'',
      l_siret = Some ''12345678901234'', l_dirigeant = None,
      l_bien_id = 2, l_date_debut_bail = \<lparr>year = 2024, month = 1, day = 1\<rparr>,
      l_date_fin_bail = None, l_loyer_mensuel = 1200, l_depot_garantie = 0,
      l_jour_paiement = 10, l_actif = True\<rparr>"

definition ex_paiement :: "int \<Rightarrow> int \<Rightarrow> rat \<Rightarrow> string \<Rightarrow> string \<Rightarrow> paiement" where
  "ex_paiement i loc montant mois categorie =
     \<lparr>p_id = i, p_locataire_id = loc, p_montant = montant,
      p_date_paiement = \<lparr>year = 2024, month = 3, day = 4\<rparr>, p_mois_concerne = mois,
      p_categorie = categorie, p_mode_paiement = ''virement'', p_commentaire = [],
      p_quittance_generee = False\<rparr>"

definition ex_db :: database where
  "ex_db =
     \<lparr>biens = [ex_appartement, ex_local],
      locataires = [ex_alice, ex_ancien, ex_martin],
      bailleurs = [],
      paiements =
        [ex_paiement 1 2 1000 ''2023-12'' ''loyer'',
         ex_paiement 2 3 1400 ''2024-02'' ''loyer'',
         ex_paiement 3 3 60 ''2024-03'' ''eau_assainissement'',
         ex_paiement 4 3 1400 ''2024-03'' ''loyer'']\<rparr>"

text \<open>The receipt of the current tenant of the shop for March 2024, in the example.\<close>

definition ex_quittance :: quittance where
  "ex_quittance =
     \<lparr>q_locataire = ex_martin,
      q_bailleur = None,
      q_paiements =
        [ex_paiement 3 3 60 ''2024-03'' ''eau_assainissement'',
         ex_paiement 4 3 1400 ''2024-03'' ''loyer''],
      q_paiements_par_categorie =
        [(''eau_assainissement'', [ex_paiement 3 3 60 ''2024-03'' ''eau_assainissement'']),
         (''loyer'', [ex_paiement 4 3 1400 ''2024-03'' ''loyer''])],
      q_total_paiements = 1460,
      q_categories_labels = CATEGORIES_PAIEMENT,
      q_mois = ''2024-03'',
      q_mois_nom = ''Mars'',
      q_annee = ''2024'',
      q_date_generation = \<lparr>year = 2024, month = 3, day = 20\<rparr>\<rparr>"

text \<open>
  A month token as the specification wants it for a receipt: exactly two parts separated
  by a dash, the first parseable as an integer, the second an integer from 1 to 12.
\<close>

definition mois_bien_forme :: "string \<Rightarrow> bool" where
  "mois_bien_forme mois =
     (case str_split CHR ''-'' mois of
        [a, m] \<Rightarrow> py_int a \<noteq> None \<and> (case py_int m of None \<Rightarrow> False | Some n \<Rightarrow> 1 \<le> n \<and> n \<le> 12)
      | _ \<Rightarrow> False)"

text \<open>
  The words of the specification on the revenue series. Months are counted by their
  index, twelve per year; \<open>douze_mois\<close> are the indices of the twelve months that end
  at the current month, oldest first; \<open>jeton_du_mois\<close> is the \<open>YYYY-MM\<close> token of a
  month and \<open>libelle_du_mois\<close> its display label (short month name and year);
  \<open>total_du_mois\<close> is the sum of the amounts of all the payments with a given token.
\<close>

definition mois_index :: "date \<Rightarrow> int" where
  "mois_index d = year d * 12 + (month d - 1)"

definition douze_mois :: "date \<Rightarrow> int list" where
  "douze_mois today = [mois_index today - 11 .. mois_index today]"

definition jeton_du_mois :: "int \<Rightarrow> string" where
  "jeton_du_mois n = strftime_Ym \<lparr>year = n div 12, month = n mod 12 + 1, day = 1\<rparr>"

definition libelle_du_mois :: "int \<Rightarrow> string" where
  "libelle_du_mois n = MOIS_NOMS_COURTS ! nat (n mod 12 + 1) @ '' '' @ str_int (n div 12)"

definition total_du_mois :: "database \<Rightarrow> string \<Rightarrow> rat" where
  "total_du_mois db jeton =
     sum_list (map p_montant (filter (\<lambda>p. p_mois_concerne p = jeton) (paiements db)))"

text \<open>
  The dates \<open>date.today()\<close> is taken from: dates of the calendar from year 1001 to year
  9999, so that the current month and the twelve months before it have a year of four
  digits.
\<close>

definition date_courante_valide :: "date \<Rightarrow> bool" where
  "date_courante_valide d =
     (1001 \<le> year d \<and> year d \<le> 9999 \<and> 1 \<le> month d \<and> month d \<le> 12 \<and>
      1 \<le> day d \<and> day d \<le> monthrange_days (year d) (month d))"

text \<open>The decimal digits of a number on a fixed width, used to reason on tokens.\<close>

fun chiffres :: "nat \<Rightarrow> nat \<Rightarrow> string" where
  "chiffres 0 n = []"
| "chiffres (Suc k) n = chiffres k (n div 10) @ [digit_char (n mod 10)]"

section \<open>The first failing check\<close>

lemma first_failing_None: "first_failing checks = None \<longleftrightarrow> list_all fst checks"
  by (induction checks rule: first_failing.induct) auto

lemma first_failing_Some:
  "first_failing checks = Some m \<longleftrightarrow>
     (\<exists>i < length checks. \<not> fst (checks ! i) \<and> snd (checks ! i) = m \<and>
        (\<forall>j < i. fst (checks ! j)))"
proof (induction checks rule: first_failing.induct)
  case 1
  then show ?case by simp
next
  case (2 passes m' checks)
  show ?case
  proof (cases passes)
    case False
    have "(\<exists>i < length ((passes, m') # checks).
             \<not> fst (((passes, m') # checks) ! i) \<and> snd (((passes, m') # checks) ! i) = m \<and>
             (\<forall>j < i. fst (((passes, m') # checks) ! j))) \<longleftrightarrow> m' = m"
    proof
      assume "\<exists>i < length ((passes, m') # checks).
             \<not> fst (((passes, m') # checks) ! i) \<and> snd (((passes, m') # checks) ! i) = m \<and>
             (\<forall>j < i. fst (((passes, m') # checks) ! j))"
      then obtain i where i: "snd (((passes, m') # checks) ! i) = m"
        "\<forall>j < i. fst (((passes, m') # checks) ! j)" by blast
      have "i = 0"
      proof (rule ccontr)
        assume "i \<noteq> 0"
        then have "fst (((passes, m') # checks) ! 0)" using i(2) by blast
        then show False using False by simp
      qed
      then show "m' = m" using i(1) by simp
    next
      assume "m' = m"
      then show "\<exists>i < length ((passes, m') # checks).
             \<not> fst (((passes, m') # checks) ! i) \<and> snd (((passes, m') # checks) ! i) = m \<and>
             (\<forall>j < i. fst (((passes, m') # checks) ! j))"
        using False by (intro exI[of _ 0]) simp
    qed
    then show ?thesis using False by auto
  next
    case True
    have "(\<exists>i < length ((passes, m') # checks).
             \<not> fst (((passes, m') # checks) ! i) \<and> snd (((passes, m') # checks) ! i) = m \<and>
             (\<forall>j < i. fst (((passes, m') # checks) ! j))) \<longleftrightarrow>
          (\<exists>i < length checks. \<not> fst (checks ! i) \<and> snd (checks ! i) = m \<and>
             (\<forall>j < i. fst (checks ! j)))" (is "?L \<longleftrightarrow> ?R")
    proof
      assume ?L
      then obtain i where i: "i < length ((passes, m') # checks)"
        "\<not> fst (((passes, m') # checks) ! i)" "snd (((passes, m') # checks) ! i) = m"
        "\<forall>j < i. fst (((passes, m') # checks) ! j)" by blast
      from i(2) True obtain k where k: "i = Suc k" by (cases i) auto
      have "\<forall>j < k. fst (checks ! j)"
      proof (intro allI impI)
        fix j assume "j < k"
        then have "Suc j < i" using k by simp
        then have "fst (((passes, m') # checks) ! Suc j)" using i(4) by blast
        then show "fst (checks ! j)" by simp
      qed
      then show ?R using i k by (intro exI[of _ k]) simp
    next
      assume ?R
      then obtain k where k: "k < length checks" "\<not> fst (checks ! k)" "snd (checks ! k) = m"
        "\<forall>j < k. fst (checks ! j)" by blast
      have "\<forall>j < Suc k. fst (((passes, m') # checks) ! j)"
      proof (intro allI impI)
        fix j assume "j < Suc k"
        then show "fst (((passes, m') # checks) ! j)" using True k(4) by (cases j) auto
      qed
      then show ?L using k by (intro exI[of _ "Suc k"]) simp
    qed
    then show ?thesis using True 2 by simp
  qed
qed

section \<open>Payment validation: the order of the checks\<close>

lemma float_le_0_iff: "m \<noteq> NaN \<Longrightarrow> float_le m (Fini 0) = (\<not> float_lt (Fini 0) m)"
  by (cases m) auto

lemma float_lt_0_iff: "x \<noteq> NaN \<Longrightarrow> float_lt x (Fini 0) = (\<not> float_le (Fini 0) x)"
  by (cases x) auto

lemma float_le_not_lt: "float_le (Fini 0) x \<Longrightarrow> \<not> float_lt x (Fini 0)"
  by (cases x) auto

lemma validate_paiement_data_checks:
  "pd_montant data \<noteq> Some NaN \<Longrightarrow>
   validate_paiement_data data = first_failing (paiement_checks data)"
  by (auto simp: validate_paiement_data_def paiement_checks_def falsy_int_def float_le_0_iff
      split: option.splits)

text \<open>
  An amount that is NaN passes the test of the amount, since \<open>nan <= 0\<close> is false:
  with the other fields filled the validator returns no error, although the amount is not
  greater than 0.
\<close>

lemma validate_paiement_data_nan:
  "validate_paiement_data
     \<lparr>pd_locataire_id = Some 3, pd_montant = Some NaN,
      pd_date_paiement = Some \<lparr>year = 2024, month = 3, day = 5\<rparr>,
      pd_mois_concerne = ''2024-03'', pd_categorie = ''loyer'',
      pd_mode_paiement = [], pd_commentaire = []\<rparr> = None"
  "\<not> float_lt (Fini 0) NaN"
  by (simp_all add: validate_paiement_data_def falsy_int_def)

text \<open>
  Claim C6, as stated, fails on a payment whose tenant id is 0: the four checks of the
  specification pass (the id is present, the amount is positive, the date is present, the
  token is not empty), and the validator answers with the message of the tenant id.
\<close>

theorem validate_paiement_data_id_zero_counterexample:
  "first_failing (paiement_checks_spec
     \<lparr>pd_locataire_id = Some 0, pd_montant = Some (Fini 10),
      pd_date_paiement = Some \<lparr>year = 2024, month = 3, day = 5\<rparr>,
      pd_mois_concerne = ''2024-03'', pd_categorie = ''loyer'',
      pd_mode_paiement = [], pd_commentaire = []\<rparr>) = None
   \<and> validate_paiement_data
     \<lparr>pd_locataire_id = Some 0, pd_montant = Some (Fini 10),
      pd_date_paiement = Some \<lparr>year = 2024, month = 3, day = 5\<rparr>,
      pd_mois_concerne = ''2024-03'', pd_categorie = ''loyer'',
      pd_mode_paiement = [], pd_commentaire = []\<rparr> = Some SelectLocataire"
  by (simp add: paiement_checks_spec_def validate_paiement_data_def falsy_int_def)

text \<open>
  Claim C6, amended: for a payment whose amount is absent or is not NaN, payment
  validation checks, in order, that the tenant id is present and not 0, that the amount is
  present and greater than 0, that the payment date is present and that the month token
  is not empty (its format is not looked at). It returns the message of the first failing
  check, and no error exactly when all four pass. The message of the amount is returned
  exactly when the tenant id is present and not 0 and the amount is absent or at most 0,
  so never without a tenant id.
\<close>

theorem validate_paiement_data_order:
  assumes "pd_montant data \<noteq> Some NaN"
  shows "validate_paiement_data data = first_failing (paiement_checks data)
   \<and> (validate_paiement_data data = None \<longleftrightarrow> list_all fst (paiement_checks data))
   \<and> (validate_paiement_data data = Some MontantPositif \<longleftrightarrow>
        (pd_locataire_id data \<noteq> None \<and> pd_locataire_id data \<noteq> Some 0 \<and>
         (case pd_montant data of None \<Rightarrow> True | Some m \<Rightarrow> float_le m (Fini 0))))"
proof (intro conjI)
  show "validate_paiement_data data = first_failing (paiement_checks data)"
    using assms by (rule validate_paiement_data_checks)
  show "validate_paiement_data data = None \<longleftrightarrow> list_all fst (paiement_checks data)"
    by (simp only: validate_paiement_data_checks [OF assms] first_failing_None)
  show "validate_paiement_data data = Some MontantPositif \<longleftrightarrow>
        (pd_locataire_id data \<noteq> None \<and> pd_locataire_id data \<noteq> Some 0 \<and>
         (case pd_montant data of None \<Rightarrow> True | Some m \<Rightarrow> float_le m (Fini 0)))"
    by (auto simp: validate_paiement_data_def falsy_int_def split: option.splits)
qed

theorem validate_paiement_data_order_witness:
  "validate_paiement_data
     \<lparr>pd_locataire_id = Some 3, pd_montant = Some (Fini (- 5)), pd_date_paiement = None,
      pd_mois_concerne = [], pd_categorie = ''loyer'',
      pd_mode_paiement = [], pd_commentaire = []\<rparr> = Some MontantPositif
   \<and> validate_paiement_data
     \<lparr>pd_locataire_id = None, pd_montant = Some (Fini (- 5)), pd_date_paiement = None,
      pd_mois_concerne = [], pd_categorie = ''loyer'',
      pd_mode_paiement = [], pd_commentaire = []\<rparr> = Some SelectLocataire
   \<and> validate_paiement_data
     \<lparr>pd_locataire_id = Some 3, pd_montant = Some (Fini 10),
      pd_date_paiement = Some \<lparr>year = 2024, month = 3, day = 5\<rparr>,
      pd_mois_concerne = ''pas-un-mois'', pd_categorie = ''loyer'',
      pd_mode_paiement = [], pd_commentaire = []\<rparr> = None"
  using
    validate_paiement_data_order [of "\<lparr>pd_locataire_id = Some 3, pd_montant = Some (Fini (- 5)),
      pd_date_paiement = None, pd_mois_concerne = [], pd_categorie = ''loyer'',
      pd_mode_paiement = [], pd_commentaire = []\<rparr>"]
    validate_paiement_data_order [of "\<lparr>pd_locataire_id = None, pd_montant = Some (Fini (- 5)),
      pd_date_paiement = None, pd_mois_concerne = [], pd_categorie = ''loyer'',
      pd_mode_paiement = [], pd_commentaire = []\<rparr>"]
    validate_paiement_data_order [of "\<lparr>pd_locataire_id = Some 3, pd_montant = Some (Fini 10),
      pd_date_paiement = Some \<lparr>year = 2024, month = 3, day = 5\<rparr>,
      pd_mois_concerne = ''pas-un-mois'', pd_categorie = ''loyer'',
      pd_mode_paiement = [], pd_commentaire = []\<rparr>"]
  by (simp add: paiement_checks_def)

section \<open>Tenant validation\<close>

lemma first_failing_append:
  "first_failing (a @ b) = (case first_failing a of Some m \<Rightarrow> Some m | None \<Rightarrow> first_failing b)"
  by (induction a rule: first_failing.induct) auto

lemma str_isdigit_14: "length s = 14 \<Longrightarrow> str_isdigit s = list_all isdigit_char s"
  by (auto simp: str_isdigit_def)

lemma ascii_digit_isdigit_char: "ascii_digit c \<Longrightarrow> isdigit_char c"
  by (simp add: ascii_digit_def isdigit_char_def Let_def)

lemma siret_valide_isdigit: "siret_valide s \<Longrightarrow> length s = 14 \<and> list_all isdigit_char s"
  by (auto simp: siret_valide_def list_all_iff ascii_digit_isdigit_char)

lemma list_all_isdigit_ascii:
  "list_all (\<lambda>c. isdigit_char c = ascii_digit c) s \<Longrightarrow>
   list_all isdigit_char s = list_all ascii_digit s"
  by (induction s) auto

lemma validate_selon_type_checks:
  assumes "case ld_siret data of
             None \<Rightarrow> True
           | Some s \<Rightarrow> list_all (\<lambda>c. isdigit_char c = ascii_digit c) s"
  shows "validate_selon_type bien data = first_failing (type_checks bien data)"
  using assms
  by (auto simp: validate_selon_type_def type_checks_def falsy_str_def siret_valide_def
      str_isdigit_14 list_all_isdigit_ascii split: option.splits)

lemma validate_bail_checks:
  assumes "ld_loyer_mensuel data \<noteq> Some NaN" and "ld_depot_garantie data \<noteq> Some NaN"
  shows "validate_bail data = first_failing (bail_checks data)"
  using assms
  by (auto simp: validate_bail_def bail_checks_def float_lt_0_iff split: option.splits)

lemma validate_bail_passes: "list_all fst (bail_checks data) \<Longrightarrow> validate_bail data = None"
  by (auto simp: validate_bail_def bail_checks_def float_le_not_lt split: option.splits)

lemma validate_locataire_data_resolved:
  assumes "ld_bien_id data = Some i" and "i \<noteq> 0" and "Bien_query_get db i = Some bien"
  shows "validate_locataire_data db data =
           (case validate_selon_type bien data of
              Some erreur \<Rightarrow> Some erreur
            | None \<Rightarrow> validate_bail data)"
  using assms by (simp add: validate_locataire_data_def)

text \<open>
  On the forms whose rent and deposit are not NaN and whose SIRET has no digit other than
  decimal ones, the validator is the first failing check of the specification, in its
  order.
\<close>

lemma validate_locataire_data_checks:
  assumes "ld_bien_id data = Some i" and "i \<noteq> 0" and "Bien_query_get db i = Some bien"
    and "nombres_et_chiffres data"
  shows "validate_locataire_data db data = first_failing (locataire_checks bien data)"
proof -
  have "validate_selon_type bien data = first_failing (type_checks bien data)"
    using assms(4) by (intro validate_selon_type_checks) (simp add: nombres_et_chiffres_def)
  moreover have "validate_bail data = first_failing (bail_checks data)"
    using assms(4) by (intro validate_bail_checks) (simp_all add: nombres_et_chiffres_def)
  ultimately show ?thesis
    by (simp add: validate_locataire_data_resolved [OF assms(1-3)] locataire_checks_def
        first_failing_append split: option.splits)
qed

lemma validate_bail_not_siret:
  "validate_bail data \<noteq> Some SiretObligatoire"
  "validate_bail data \<noteq> Some SiretQuatorzeChiffres"
  by (auto simp: validate_bail_def split: if_splits)

text \<open>
  Claim C1 fails on the code for a rent that is NaN (the form text \<open>nan\<close>). For the
  form of a commercial tenant with a company name, a SIRET of 14 decimal digits and a
  lease start date, the first failing check of the specification is the one of the rent,
  which is not at least 0, so the message of the rent is due; the validator returns no
  error, because its test \<open>nan < 0\<close> is false.
\<close>

theorem validate_locataire_data_nan_rent:
  "first_failing (locataire_checks ex_local (ex_form\<lparr>ld_loyer_mensuel := Some NaN\<rparr>)) =
     Some LoyerPositif
   \<and> validate_locataire_data
       \<lparr>biens = [ex_appartement, ex_local], locataires = [], bailleurs = [], paiements = []\<rparr>
       (ex_form\<lparr>ld_loyer_mensuel := Some NaN\<rparr>) = None"
  by (simp add: ex_form_def ex_local_def ex_appartement_def Bien_query_get_def
      locataire_checks_def type_checks_def bail_checks_def siret_valide_def ascii_digit_def
      validate_locataire_data_def validate_selon_type_def validate_bail_def falsy_str_def
      str_isdigit_def isdigit_char_def)

text \<open>
  What the code does with a SIRET, for a tenant form of a commercial-premises property
  with a company name: the string passes exactly when it has length 14 and every
  character is a digit for \<open>str.isdigit\<close>; then the result is that of the lease checks.
  Any other string that is not empty gets the 14-digits message, the empty string the
  SIRET-required message.
\<close>

lemma validate_locataire_data_siret_isdigit:
  assumes "ld_bien_id data = Some i" and "i \<noteq> 0" and "Bien_query_get db i = Some bien"
    and "b_type_bien bien = ''local_commercial''"
    and "ld_raison_sociale data = Some r" and "r \<noteq> []"
    and "ld_siret data = Some s"
  shows "(length s = 14 \<and> list_all isdigit_char s \<longrightarrow>
            validate_locataire_data db data = validate_bail data)
    \<and> (\<not> (length s = 14 \<and> list_all isdigit_char s) \<longrightarrow>
            validate_locataire_data db data =
              Some (if s = [] then SiretObligatoire else SiretQuatorzeChiffres))"
proof -
  have res: "validate_locataire_data db data =
      (case validate_selon_type bien data of Some erreur \<Rightarrow> Some erreur | None \<Rightarrow> validate_bail data)"
    using assms(1-3) by (rule validate_locataire_data_resolved)
  have ok: "length s = 14 \<and> list_all isdigit_char s \<Longrightarrow> validate_selon_type bien data = None"
    using assms(4-7) by (auto simp: validate_selon_type_def falsy_str_def str_isdigit_14)
  have ko: "\<not> (length s = 14 \<and> list_all isdigit_char s) \<Longrightarrow> validate_selon_type bien data =
      Some (if s = [] then SiretObligatoire else SiretQuatorzeChiffres)"
    using assms(4-7) by (auto simp: validate_selon_type_def falsy_str_def str_isdigit_14)
  show ?thesis using res ok ko by auto
qed

text \<open>
  Claim C8 fails on the code for a SIRET made of 14 superscript digits (U+00B2, fourteen
  times): the string has length 14 and none of its characters is a decimal digit, so it is
  not a valid SIRET and the 14-digits message is due; \<open>str.isdigit\<close> takes the
  superscript two for a digit, and the validator returns no error.
\<close>

theorem validate_locataire_data_siret_exposants:
  "length [CHR 0xB2, CHR 0xB2, CHR 0xB2, CHR 0xB2, CHR 0xB2, CHR 0xB2, CHR 0xB2,
           CHR 0xB2, CHR 0xB2, CHR 0xB2, CHR 0xB2, CHR 0xB2, CHR 0xB2, CHR 0xB2] = 14
   \<and> \<not> siret_valide [CHR 0xB2, CHR 0xB2, CHR 0xB2, CHR 0xB2, CHR 0xB2, CHR 0xB2, CHR 0xB2,
           CHR 0xB2, CHR 0xB2, CHR 0xB2, CHR 0xB2, CHR 0xB2, CHR 0xB2, CHR 0xB2]
   \<and> first_failing (locataire_checks ex_local
        (ex_form\<lparr>ld_siret := Some [CHR 0xB2, CHR 0xB2, CHR 0xB2, CHR 0xB2, CHR 0xB2, CHR 0xB2,
           CHR 0xB2, CHR 0xB2, CHR 0xB2, CHR 0xB2, CHR 0xB2, CHR 0xB2, CHR 0xB2, CHR 0xB2]\<rparr>)) =
       Some SiretQuatorzeChiffres
   \<and> validate_locataire_data
       \<lparr>biens = [ex_appartement, ex_local], locataires = [], bailleurs = [], paiements = []\<rparr>
       (ex_form\<lparr>ld_siret := Some [CHR 0xB2, CHR 0xB2, CHR 0xB2, CHR 0xB2, CHR 0xB2, CHR 0xB2,
           CHR 0xB2, CHR 0xB2, CHR 0xB2, CHR 0xB2, CHR 0xB2, CHR 0xB2, CHR 0xB2, CHR 0xB2]\<rparr>) = None"
  by (simp add: ex_form_def ex_local_def ex_appartement_def Bien_query_get_def
      locataire_checks_def type_checks_def bail_checks_def siret_valide_def ascii_digit_def
      validate_locataire_data_def validate_selon_type_def validate_bail_def falsy_str_def
      str_isdigit_def isdigit_char_def)

text \<open>
  Claim C9: when the resolved property is commercial premises, tenant validation does
  not depend on the last name or the first name: changing them changes nothing in the
  result. With a company name, a SIRET of 14 digits and lease fields that pass, it
  returns no error when both names are empty.
\<close>

theorem validate_locataire_data_commercial_ignores_names:
  assumes "ld_bien_id data = Some i" and "i \<noteq> 0" and "Bien_query_get db i = Some bien"
    and "b_type_bien bien = ''local_commercial''"
  shows "validate_locataire_data db (data\<lparr>ld_nom := n, ld_prenom := p\<rparr>) =
           validate_locataire_data db data
    \<and> (ld_raison_sociale data \<noteq> None \<and> ld_raison_sociale data \<noteq> Some []
        \<and> (case ld_siret data of
              None \<Rightarrow> False
            | Some s \<Rightarrow> length s = 14 \<and> list_all isdigit_char s)
        \<and> list_all fst (bail_checks data)
        \<longrightarrow> validate_locataire_data db (data\<lparr>ld_nom := [], ld_prenom := None\<rparr>) = None)"
proof -
  have same: "validate_locataire_data db data =
      (case validate_selon_type bien data of Some erreur \<Rightarrow> Some erreur | None \<Rightarrow> validate_bail data)"
    using assms(1-3) by (rule validate_locataire_data_resolved)
  have upd: "validate_locataire_data db (data\<lparr>ld_nom := n', ld_prenom := p'\<rparr>) =
      validate_locataire_data db data" for n' p'
  proof -
    have "validate_locataire_data db (data\<lparr>ld_nom := n', ld_prenom := p'\<rparr>) =
        (case validate_selon_type bien (data\<lparr>ld_nom := n', ld_prenom := p'\<rparr>) of
           Some erreur \<Rightarrow> Some erreur
         | None \<Rightarrow> validate_bail (data\<lparr>ld_nom := n', ld_prenom := p'\<rparr>))"
      using assms(1-3) by (intro validate_locataire_data_resolved [of _ i]) simp_all
    moreover have "validate_selon_type bien (data\<lparr>ld_nom := n', ld_prenom := p'\<rparr>) =
        validate_selon_type bien data"
      using assms(4) by (simp add: validate_selon_type_def)
    moreover have "validate_bail (data\<lparr>ld_nom := n', ld_prenom := p'\<rparr>) = validate_bail data"
      by (simp add: validate_bail_def split: option.splits)
    ultimately show ?thesis using same by (simp split: option.splits)
  qed
  have pass: "ld_raison_sociale data \<noteq> None \<and> ld_raison_sociale data \<noteq> Some []
        \<and> (case ld_siret data of
              None \<Rightarrow> False
            | Some s \<Rightarrow> length s = 14 \<and> list_all isdigit_char s)
        \<and> list_all fst (bail_checks data)
      \<Longrightarrow> validate_locataire_data db data = None"
  proof -
    assume h: "ld_raison_sociale data \<noteq> None \<and> ld_raison_sociale data \<noteq> Some []
        \<and> (case ld_siret data of
              None \<Rightarrow> False
            | Some s \<Rightarrow> length s = 14 \<and> list_all isdigit_char s)
        \<and> list_all fst (bail_checks data)"
    then have "validate_selon_type bien data = None"
      using assms(4)
      by (auto simp: validate_selon_type_def falsy_str_def str_isdigit_14 split: option.splits)
    moreover have "validate_bail data = None" using h by (intro validate_bail_passes) simp
    ultimately show ?thesis using same by simp
  qed
  show ?thesis using upd pass by simp
qed

theorem validate_locataire_data_commercial_ignores_names_witness:
  "validate_locataire_data
       \<lparr>biens = [ex_appartement, ex_local], locataires = [], bailleurs = [], paiements = []\<rparr>
       (ex_form\<lparr>ld_nom := ''Martin'', ld_prenom := Some ''Paul''\<rparr>) = None
   \<and> validate_locataire_data
       \<lparr>biens = [ex_appartement, ex_local], locataires = [], bailleurs = [], paiements = []\<rparr>
       (ex_form\<lparr>ld_nom := [], ld_prenom := None\<rparr>) = None
   \<and> ld_nom ex_form = [] \<and> ld_prenom ex_form = None"
  using
    validate_locataire_data_commercial_ignores_names [where data = ex_form and i = 2
      and db = "\<lparr>biens = [ex_appartement, ex_local], locataires = [], bailleurs = [], paiements = []\<rparr>"
      and bien = ex_local and n = "''Martin''" and p = "Some ''Paul''"]
  by (simp add: ex_form_def ex_local_def ex_appartement_def Bien_query_get_def
      bail_checks_def isdigit_char_def validate_locataire_data_def
      validate_selon_type_def validate_bail_def falsy_str_def str_isdigit_def)

section \<open>Dashboard: monthly revenue and late payments\<close>

lemma strftime_Ym_ex:
  "strftime_Ym \<lparr>year = 2024, month = 3, day = 20\<rparr> = ''2024-03''"
  "strftime_Ym \<lparr>year = 2024, month = 3, day = 5\<rparr> = ''2024-03''"
  by code_simp+

lemma find_by_key:
  "distinct (map cle xs) \<Longrightarrow> x \<in> set xs \<Longrightarrow> find (\<lambda>y. cle y = cle x) xs = Some x"
  by (induction xs) (auto simp: image_iff)

text \<open>
  Claim C4: the total rent of a tenant is the monthly rent plus the monthly charges of
  the owning property (the row of the properties table whose primary key is the tenant's
  \<open>bien_id\<close>), and the monthly revenue of the dashboard is the sum of the total rents of
  the active tenants.
\<close>

theorem loyer_total_revenus_mensuels:
  assumes "distinct (map b_id (biens db))" and "bien \<in> set (biens db)"
    and "b_id bien = l_bien_id loc"
  shows "loyer_total db loc = l_loyer_mensuel loc + b_charges_mensuelles bien
    \<and> revenus_mensuels (index db today) =
        sum_list (map (loyer_total db) (filter l_actif (locataires db)))"
proof -
  have "find (\<lambda>y. b_id y = b_id bien) (biens db) = Some bien"
    using assms(1,2) by (rule find_by_key)
  then have "locataire_bien db loc = Some bien"
    using assms(3) by (simp add: locataire_bien_def)
  then show ?thesis by (simp add: loyer_total_def index_def Let_def)
qed

theorem loyer_total_revenus_mensuels_witness:
  "loyer_total ex_db ex_alice = 950
   \<and> l_loyer_mensuel ex_alice = 800 \<and> b_charges_mensuelles ex_appartement = 150
   \<and> revenus_mensuels (index ex_db \<lparr>year = 2024, month = 3, day = 20\<rparr>) = 950 + 1400"
  using loyer_total_revenus_mensuels [where db = ex_db and bien = ex_appartement
      and loc = ex_alice and today = "\<lparr>year = 2024, month = 3, day = 20\<rparr>"]
  by (simp add: ex_db_def ex_alice_def ex_ancien_def ex_martin_def ex_appartement_def
      ex_local_def loyer_total_def locataire_bien_def)

text \<open>
  Claim C5: a tenant is in the late list of the dashboard exactly when it is an active
  tenant of the table, no payment of that tenant, of any category, has the current month
  as its month token, and the day of the month of today is greater than the payment day
  of the tenant.
\<close>

theorem loyers_en_retard_iff:
  "loc \<in> set (loyers_en_retard (index db today)) \<longleftrightarrow>
     loc \<in> set (locataires db) \<and> l_actif loc
     \<and> \<not> (\<exists>p \<in> set (paiements db).
            p_locataire_id p = l_id loc \<and> p_mois_concerne p = strftime_Ym today)
     \<and> l_jour_paiement loc < day today"
  by (auto simp: index_def Let_def locataire_paiements_def list_ex_iff)

theorem loyers_en_retard_iff_witness:
  "loyers_en_retard (index ex_db \<lparr>year = 2024, month = 3, day = 20\<rparr>) = [ex_alice]
   \<and> ex_alice \<in> set (loyers_en_retard (index ex_db \<lparr>year = 2024, month = 3, day = 20\<rparr>))
   \<and> ex_martin \<notin> set (loyers_en_retard (index ex_db \<lparr>year = 2024, month = 3, day = 20\<rparr>))
   \<and> ex_alice \<notin> set (loyers_en_retard (index ex_db \<lparr>year = 2024, month = 3, day = 5\<rparr>))"
  using
    loyers_en_retard_iff [of ex_alice ex_db "\<lparr>year = 2024, month = 3, day = 20\<rparr>"]
    loyers_en_retard_iff [of ex_martin ex_db "\<lparr>year = 2024, month = 3, day = 20\<rparr>"]
    loyers_en_retard_iff [of ex_alice ex_db "\<lparr>year = 2024, month = 3, day = 5\<rparr>"]
  by (simp add: ex_db_def ex_alice_def ex_ancien_def ex_martin_def ex_paiement_def
      index_def Let_def locataire_paiements_def strftime_Ym_ex)

section \<open>Statistics: the total per property\<close>

lemma map_of_tabulate:
  "map_of (map (\<lambda>k. (k, f k)) ks) k = (if k \<in> set ks then Some (f k) else None)"
  by (induction ks) auto

lemma sum_filter_absent:
  "k \<notin> cle ` set ps \<Longrightarrow> sum_list (map p_montant (filter (\<lambda>p. cle p = k) ps)) = 0"
  by (induction ps) auto

lemma get_or_0_group_by_sum:
  "get_or_0 (map_of (group_by_sum cle ps)) k =
     sum_list (map p_montant (filter (\<lambda>p. cle p = k) ps))"
proof (cases "k \<in> cle ` set ps")
  case True
  then show ?thesis
    by (simp add: get_or_0_def group_by_sum_def map_of_tabulate)
next
  case False
  then show ?thesis
    by (simp add: get_or_0_def group_by_sum_def map_of_tabulate sum_filter_absent)
qed

lemma find_filter:
  "find P (filter Q xs) = (case filter (\<lambda>x. Q x \<and> P x) xs of [] \<Rightarrow> None | x # rest \<Rightarrow> Some x)"
  by (induction xs) auto

text \<open>
  Claim C7: the statistics hold one entry per property, in table order; the tenant of an
  entry is the current tenant of the property, that is the first tenant of the property
  flagged active, or none; the total of the entry is the sum of the amounts of all the
  payments of that tenant, whatever their month, and 0 when the property has no active
  tenant.
\<close>

theorem statistiques_biens_total_percu:
  "map bs_bien (statistiques_biens db) = biens db
   \<and> map bs_locataire (statistiques_biens db) =
       map (\<lambda>bien. case filter (\<lambda>l. l_bien_id l = b_id bien \<and> l_actif l) (locataires db) of
                      [] \<Rightarrow> None | l # rest \<Rightarrow> Some l) (biens db)
   \<and> map bs_total_percu (statistiques_biens db) =
       map (\<lambda>bien. case locataire_actuel db bien of
                      None \<Rightarrow> 0
                    | Some l \<Rightarrow> sum_list (map p_montant
                        (filter (\<lambda>p. p_locataire_id p = l_id l) (paiements db)))) (biens db)"
proof (intro conjI)
  show "map bs_bien (statistiques_biens db) = biens db"
    by (simp add: statistiques_biens_def Let_def comp_def)
  show "map bs_locataire (statistiques_biens db) =
       map (\<lambda>bien. case filter (\<lambda>l. l_bien_id l = b_id bien \<and> l_actif l) (locataires db) of
                      [] \<Rightarrow> None | l # rest \<Rightarrow> Some l) (biens db)"
    by (simp add: statistiques_biens_def Let_def comp_def locataire_actuel_def
        bien_locataires_def find_filter)
  show "map bs_total_percu (statistiques_biens db) =
       map (\<lambda>bien. case locataire_actuel db bien of
                      None \<Rightarrow> 0
                    | Some l \<Rightarrow> sum_list (map p_montant
                        (filter (\<lambda>p. p_locataire_id p = l_id l) (paiements db)))) (biens db)"
    by (auto simp: statistiques_biens_def Let_def totaux_par_locataire_def
        get_or_0_group_by_sum split: option.splits)
qed

theorem statistiques_biens_total_percu_witness:
  "map bs_total_percu (statistiques_biens ex_db) = [0, 60 + 1400 + 1400]
   \<and> map bs_locataire (statistiques_biens ex_db) = [Some ex_alice, Some ex_martin]
   \<and> map bs_total_percu (statistiques_biens (ex_db\<lparr>locataires := [ex_ancien]\<rparr>)) = [0, 0]"
  using statistiques_biens_total_percu [of ex_db]
    statistiques_biens_total_percu [of "ex_db\<lparr>locataires := [ex_ancien]\<rparr>"]
  by (simp add: ex_db_def ex_alice_def ex_ancien_def ex_martin_def ex_paiement_def
      ex_appartement_def ex_local_def locataire_actuel_def bien_locataires_def)

section \<open>Receipts: the grouping by category\<close>

lemma ajoute_categorie_keys:
  "map fst (ajoute_categorie acc p) =
     (if p_categorie p \<in> fst ` set acc then map fst acc else map fst acc @ [p_categorie p])"
  by (induction acc p rule: ajoute_categorie.induct) auto

lemma ajoute_categorie_distinct:
  "distinct (map fst acc) \<Longrightarrow> distinct (map fst (ajoute_categorie acc p))"
  by (simp add: ajoute_categorie_keys)

lemma ajoute_categorie_map_of:
  "map_of (ajoute_categorie acc p) k =
     (if k = p_categorie p
      then Some ((case map_of acc k of None \<Rightarrow> [] | Some g \<Rightarrow> g) @ [p])
      else map_of acc k)"
  by (induction acc p rule: ajoute_categorie.induct) auto

lemma ajoute_categorie_mset:
  "mset (concat (map snd (ajoute_categorie acc p))) = mset (concat (map snd acc)) + {#p#}"
  by (induction acc p rule: ajoute_categorie.induct) auto

lemma ajoute_categorie_sum:
  "sum_list (map (\<lambda>(k, g). sum_list (map p_montant g)) (ajoute_categorie acc p)) =
     sum_list (map (\<lambda>(k, g). sum_list (map p_montant g)) acc) + p_montant p"
  by (induction acc p rule: ajoute_categorie.induct) auto

lemma foldl_ajoute_distinct:
  "distinct (map fst acc) \<Longrightarrow> distinct (map fst (foldl ajoute_categorie acc ps))"
  by (induction ps arbitrary: acc) (auto simp: ajoute_categorie_distinct)

lemma foldl_ajoute_map_of:
  "map_of (foldl ajoute_categorie acc ps) k =
     (case map_of acc k of
        Some g \<Rightarrow> Some (g @ filter (\<lambda>p. p_categorie p = k) ps)
      | None \<Rightarrow> if k \<in> p_categorie ` set ps
                then Some (filter (\<lambda>p. p_categorie p = k) ps) else None)"
proof (induction ps arbitrary: acc)
  case Nil
  then show ?case by (simp split: option.splits)
next
  case (Cons p ps)
  show ?case
    by (simp add: Cons.IH ajoute_categorie_map_of split: option.splits)
qed

lemma foldl_ajoute_mset:
  "mset (concat (map snd (foldl ajoute_categorie acc ps))) =
     mset (concat (map snd acc)) + mset ps"
  by (induction ps arbitrary: acc) (auto simp: ajoute_categorie_mset)

lemma foldl_ajoute_sum:
  "sum_list (map (\<lambda>(k, g). sum_list (map p_montant g)) (foldl ajoute_categorie acc ps)) =
     sum_list (map (\<lambda>(k, g). sum_list (map p_montant g)) acc) + sum_list (map p_montant ps)"
  by (induction ps arbitrary: acc) (auto simp: ajoute_categorie_sum)

text \<open>
  Claim C10: in a rendered receipt the payments are those of the tenant for the month
  token; the grouping has one entry per category that occurs, no category twice; the
  group of a category is the list of the fetched payments of that category, so the
  groups together hold every fetched payment exactly as often as it was fetched, each in
  the group of its own category; and the grand total is the sum over the groups of the
  sums of their amounts.
\<close>

theorem generer_quittance_partition:
  assumes "generer_quittance db today locataire_id mois = Render q"
  shows "q_paiements q =
           filter (\<lambda>p. p_locataire_id p = locataire_id \<and> p_mois_concerne p = mois) (paiements db)
    \<and> distinct (map fst (q_paiements_par_categorie q))
    \<and> (\<forall>k. map_of (q_paiements_par_categorie q) k =
             (if k \<in> p_categorie ` set (q_paiements q)
              then Some (filter (\<lambda>p. p_categorie p = k) (q_paiements q)) else None))
    \<and> mset (concat (map snd (q_paiements_par_categorie q))) = mset (q_paiements q)
    \<and> q_total_paiements q =
        sum_list (map (\<lambda>(k, g). sum_list (map p_montant g)) (q_paiements_par_categorie q))"
proof -
  define ps where
    "ps = filter (\<lambda>p. p_locataire_id p = locataire_id \<and> p_mois_concerne p = mois) (paiements db)"
  have q: "q_paiements q = ps" "q_paiements_par_categorie q = paiements_par_categorie ps"
    "q_total_paiements q = sum_list (map p_montant ps)"
    using assms
    by (auto simp: generer_quittance_def Let_def ps_def split: option.splits)
  have "distinct (map fst (paiements_par_categorie ps))"
    unfolding paiements_par_categorie_def by (rule foldl_ajoute_distinct) simp
  moreover have "map_of (paiements_par_categorie ps) k =
      (if k \<in> p_categorie ` set ps then Some (filter (\<lambda>p. p_categorie p = k) ps) else None)" for k
    unfolding paiements_par_categorie_def by (simp add: foldl_ajoute_map_of)
  moreover have "mset (concat (map snd (paiements_par_categorie ps))) = mset ps"
    unfolding paiements_par_categorie_def by (simp add: foldl_ajoute_mset)
  moreover have "sum_list (map p_montant ps) =
      sum_list (map (\<lambda>(k, g). sum_list (map p_montant g)) (paiements_par_categorie ps))"
    unfolding paiements_par_categorie_def by (simp add: foldl_ajoute_sum)
  ultimately show ?thesis using q ps_def by simp
qed

lemma generer_quittance_ex:
  "generer_quittance ex_db \<lparr>year = 2024, month = 3, day = 20\<rparr> 3 ''2024-03'' =
     Render ex_quittance"
  by code_simp

theorem generer_quittance_partition_witness:
  "generer_quittance ex_db \<lparr>year = 2024, month = 3, day = 20\<rparr> 3 ''2024-03'' =
     Render ex_quittance
   \<and> map fst (q_paiements_par_categorie ex_quittance) = [''eau_assainissement'', ''loyer'']
   \<and> map_of (q_paiements_par_categorie ex_quittance) ''loyer'' =
       Some [ex_paiement 4 3 1400 ''2024-03'' ''loyer'']
   \<and> q_total_paiements ex_quittance = 60 + 1400"
  using generer_quittance_partition [OF generer_quittance_ex] generer_quittance_ex
  by (simp add: ex_quittance_def)

section \<open>Receipts: the month token\<close>

lemma parse_mois_None: "parse_mois mois = None \<longleftrightarrow> \<not> mois_bien_forme mois"
  by (auto simp: parse_mois_def mois_bien_forme_def split: list.splits option.splits)

lemma parse_mois_Some:
  assumes "str_split CHR ''-'' mois = [a, m]" and "py_int a = Some y" and "py_int m = Some n"
    and "1 \<le> n" and "n \<le> 12"
  shows "parse_mois mois = Some (a, n)"
  using assms by (simp add: parse_mois_def)

lemma MOIS_NOMS_12:
  "map (\<lambda>n. MOIS_NOMS ! nat n) [1 .. 12] =
     [''Janvier'', ''F'' @ [CHR 0xE9] @ ''vrier'', ''Mars'', ''Avril'', ''Mai'', ''Juin'',
      ''Juillet'', ''Ao'' @ [CHR 0xFB] @ ''t'', ''Septembre'', ''Octobre'', ''Novembre'',
      ''D'' @ [CHR 0xE9] @ ''cembre'']"
  by code_simp

text \<open>
  Claim C3, as stated, fails for a tenant id that is not in the table: the token
  \<open>2024\<close> has one part only, and the handler answers not-found, not the month-format
  error, because the tenant is looked up before the token is read.
\<close>

theorem generer_quittance_unknown_tenant_counterexample:
  "str_split CHR ''-'' ''2024'' = [''2024'']
   \<and> \<not> mois_bien_forme ''2024''
   \<and> generer_quittance \<lparr>biens = [], locataires = [], bailleurs = [], paiements = []\<rparr>
        \<lparr>year = 2024, month = 3, day = 20\<rparr> 1 ''2024'' = NotFound404
   \<and> generer_quittance \<lparr>biens = [], locataires = [], bailleurs = [], paiements = []\<rparr>
        \<lparr>year = 2024, month = 3, day = 20\<rparr> 1 ''2024'' \<noteq> FlashRedirect FormatMoisInvalide"
  by (simp add: mois_bien_forme_def generer_quittance_def Locataire_query_get_def)

text \<open>
  Claim C3, amended: for a tenant id that is in the table, receipt generation fails with
  the month-format error exactly when the token is not two parts separated by a dash, the
  first parseable as an integer and the second an integer from 1 to 12; for a tenant id
  that is not in the table it answers not-found whatever the token. When it succeeds,
  the year of the receipt is the first part as written, and the month name is the entry
  of the table of full month names at the parsed month number (\<open>Mars\<close> and \<open>2024\<close>
  for the token \<open>2024-03\<close>).
\<close>

theorem generer_quittance_format:
  "(generer_quittance db today locataire_id mois = FlashRedirect FormatMoisInvalide \<longleftrightarrow>
      Locataire_query_get db locataire_id \<noteq> None \<and> \<not> mois_bien_forme mois)
   \<and> (Locataire_query_get db locataire_id = None \<longrightarrow>
        generer_quittance db today locataire_id mois = NotFound404)
   \<and> (Locataire_query_get db locataire_id = Some loc \<and> str_split CHR ''-'' mois = [a, m]
        \<and> py_int a = Some y \<and> py_int m = Some n \<and> 1 \<le> n \<and> n \<le> 12 \<longrightarrow>
        (\<exists>q. generer_quittance db today locataire_id mois = Render q
           \<and> q_locataire q = loc \<and> q_mois q = mois
           \<and> q_annee q = a \<and> q_mois_nom q = MOIS_NOMS ! nat n))"
proof (intro conjI impI)
  show "generer_quittance db today locataire_id mois = FlashRedirect FormatMoisInvalide \<longleftrightarrow>
      Locataire_query_get db locataire_id \<noteq> None \<and> \<not> mois_bien_forme mois"
    by (auto simp: generer_quittance_def Let_def parse_mois_None [symmetric]
        split: option.splits)
next
  assume "Locataire_query_get db locataire_id = None"
  then show "generer_quittance db today locataire_id mois = NotFound404"
    by (simp add: generer_quittance_def)
next
  assume h: "Locataire_query_get db locataire_id = Some loc \<and> str_split CHR ''-'' mois = [a, m]
        \<and> py_int a = Some y \<and> py_int m = Some n \<and> 1 \<le> n \<and> n \<le> 12"
  then have "parse_mois mois = Some (a, n)"
    by (intro parse_mois_Some [of mois a m y n]) simp_all
  then show "\<exists>q. generer_quittance db today locataire_id mois = Render q
           \<and> q_locataire q = loc \<and> q_mois q = mois
           \<and> q_annee q = a \<and> q_mois_nom q = MOIS_NOMS ! nat n"
    using h by (simp add: generer_quittance_def Let_def)
qed

lemma mois_ex:
  "\<not> mois_bien_forme ''2024''"
  "\<not> mois_bien_forme ''2024-13''"
  "str_split CHR ''-'' ''2024-03'' = [''2024'', ''03'']"
  "py_int ''2024'' = Some 2024"
  "py_int ''03'' = Some 3"
  "MOIS_NOMS ! nat 3 = ''Mars''"
  "Locataire_query_get ex_db 3 = Some ex_martin"
  by code_simp+

theorem generer_quittance_format_witness:
  "generer_quittance ex_db \<lparr>year = 2024, month = 3, day = 20\<rparr> 3 ''2024'' =
     FlashRedirect FormatMoisInvalide
   \<and> generer_quittance ex_db \<lparr>year = 2024, month = 3, day = 20\<rparr> 3 ''2024-13'' =
     FlashRedirect FormatMoisInvalide
   \<and> (\<exists>q. generer_quittance ex_db \<lparr>year = 2024, month = 3, day = 20\<rparr> 3 ''2024-03'' = Render q
         \<and> q_annee q = ''2024'' \<and> q_mois_nom q = ''Mars'')
   \<and> generer_quittance ex_db \<lparr>year = 2024, month = 3, day = 20\<rparr> 7 ''2024-03'' = NotFound404"
proof -
  have none: "Locataire_query_get ex_db 7 = None" by code_simp
  show ?thesis
    using
      generer_quittance_format [where db = ex_db and locataire_id = 3 and mois = "''2024''"
        and today = "\<lparr>year = 2024, month = 3, day = 20\<rparr>"]
      generer_quittance_format [where db = ex_db and locataire_id = 3 and mois = "''2024-13''"
        and today = "\<lparr>year = 2024, month = 3, day = 20\<rparr>"]
      generer_quittance_format [where db = ex_db and locataire_id = 3 and mois = "''2024-03''"
        and today = "\<lparr>year = 2024, month = 3, day = 20\<rparr>" and loc = ex_martin
        and a = "''2024''" and m = "''03''" and y = 2024 and n = 3]
      generer_quittance_format [where db = ex_db and locataire_id = 7 and mois = "''2024-03''"
        and today = "\<lparr>year = 2024, month = 3, day = 20\<rparr>"]
      mois_ex none
    by auto
qed

section \<open>Statistics: the revenue of the last twelve months\<close>

subsection \<open>Tokens and their order\<close>

lemma of_char_digit_char: "d < 10 \<Longrightarrow> (of_char (digit_char d) :: nat) = 48 + d"
  unfolding digit_char_def by (simp only: of_char_of) simp

lemma digit_char_inj:
  assumes "a < 10" and "b < 10" and "digit_char a = digit_char b"
  shows "a = b"
proof -
  have "(of_char (digit_char a) :: nat) = of_char (digit_char b)"
    by (simp only: assms(3))
  then have "48 + a = 48 + b"
    by (simp only: of_char_digit_char [OF assms(1)] of_char_digit_char [OF assms(2)])
  then show ?thesis by linarith
qed

lemma length_chiffres: "length (chiffres k n) = k"
  by (induction k arbitrary: n) auto

lemma str_nat_chiffres: "10 ^ k \<le> n \<Longrightarrow> n < 10 ^ Suc k \<Longrightarrow> str_nat n = chiffres (Suc k) n"
proof (induction k arbitrary: n)
  case 0
  then show ?case by simp
next
  case (Suc k)
  have "(1::nat) \<le> 10 ^ k" by simp
  then have "(10::nat) \<le> 10 * 10 ^ k" by linarith
  moreover have "10 * 10 ^ k \<le> n" using Suc.prems(1) by simp
  ultimately have "\<not> n < 10" by linarith
  moreover have "10 ^ k \<le> n div 10"
    using Suc.prems(1) by (simp add: less_eq_div_iff_mult_less_eq mult.commute)
  moreover have "n div 10 < 10 ^ Suc k"
    using Suc.prems(2) by (simp add: div_less_iff_less_mult mult.commute)
  ultimately show ?case
    using Suc.IH [of "n div 10"] by (subst str_nat.simps) simp
qed

lemma div_mod_10_less:
  assumes "(a::nat) < b"
  shows "a div 10 < b div 10 \<or> (a div 10 = b div 10 \<and> a mod 10 < b mod 10)"
proof -
  have "a div 10 \<le> b div 10" using assms by (simp add: div_le_mono)
  moreover have "a mod 10 < b mod 10" if e: "a div 10 = b div 10"
  proof -
    have "a = 10 * (a div 10) + a mod 10" "b = 10 * (b div 10) + b mod 10" by simp_all
    then show ?thesis using assms e by linarith
  qed
  ultimately show ?thesis by linarith
qed

lemma str_le_refl: "str_le a a"
  by (induction a) auto

lemma str_le_prefix: "str_le (xs @ a) (xs @ b) = str_le a b"
  by (induction xs) auto

lemma str_le_chiffres:
  "a < b \<Longrightarrow> b < 10 ^ k \<Longrightarrow> str_le (chiffres k a @ r1) (chiffres k b @ r2)"
proof (induction k arbitrary: a b r1 r2)
  case 0
  then show ?case by simp
next
  case (Suc k)
  have b10: "b div 10 < 10 ^ k" using Suc.prems(2) by (simp add: div_less_iff_less_mult mult.commute)
  consider "a div 10 < b div 10" | "a div 10 = b div 10" "a mod 10 < b mod 10"
    using div_mod_10_less [OF Suc.prems(1)] by blast
  then show ?case
  proof cases
    case 1
    then show ?thesis using Suc.IH [OF 1 b10] by simp
  next
    case 2
    then show ?thesis by (simp add: str_le_prefix of_char_digit_char)
  qed
qed

lemma chiffres_inj:
  "a < 10 ^ k \<Longrightarrow> b < 10 ^ k \<Longrightarrow> chiffres k a = chiffres k b \<Longrightarrow> a = b"
proof (induction k arbitrary: a b)
  case 0
  then show ?case by simp
next
  case (Suc k)
  have "a div 10 < 10 ^ k" "b div 10 < 10 ^ k"
    using Suc.prems(1,2) by (simp_all add: div_less_iff_less_mult mult.commute)
  moreover have "chiffres k (a div 10) = chiffres k (b div 10)" "digit_char (a mod 10) = digit_char (b mod 10)"
    using Suc.prems(3) by simp_all
  ultimately have "a div 10 = b div 10" "a mod 10 = b mod 10"
    using Suc.IH digit_char_inj [of "a mod 10" "b mod 10"] by simp_all
  then show ?case by (metis mod_div_decomp)
qed
lemma chiffres_2:
  assumes "m < 100"
  shows "chiffres 2 m = [digit_char (m div 10), digit_char (m mod 10)]"
proof -
  have "m div 10 < 10" using assms by (simp add: div_less_iff_less_mult)
  then have "m div 10 mod 10 = m div 10" by (rule mod_less)
  moreover have "chiffres (Suc (Suc 0)) m =
      [digit_char (m div 10 mod 10), digit_char (m mod 10)]"
    by (simp only: chiffres.simps append_Nil append_Cons)
  moreover have "(2::nat) = Suc (Suc 0)" by simp
  ultimately show ?thesis by (simp only:)
qed

lemma mois_index_bounds:
  assumes "12000 \<le> (n::int)" and "n < 120000"
  shows "1000 \<le> n div 12" and "n div 12 \<le> 9999" and "0 \<le> n mod 12" and "n mod 12 < 12"
proof -
  have "(12000::int) div 12 \<le> n div 12" using assms(1) by (intro zdiv_mono1) simp_all
  then show "1000 \<le> n div 12" by simp
  have "n \<le> 119999" using assms(2) by simp
  then have "n div 12 \<le> (119999::int) div 12" by (intro zdiv_mono1) simp_all
  then show "n div 12 \<le> 9999" by simp
  show "0 \<le> n mod 12" by simp
  show "n mod 12 < 12" by simp
qed

lemma jeton_du_mois_chiffres:
  assumes "12000 \<le> n" and "n < 120000"
  shows "jeton_du_mois n =
           chiffres 4 (nat (n div 12)) @ CHR ''-'' # chiffres 2 (nat (n mod 12 + 1))"
proof -
  note b = mois_index_bounds [OF assms]
  have "(10::nat) ^ 3 = 1000" "(10::nat) ^ Suc 3 = 10000" by simp_all
  moreover have "1000 \<le> nat (n div 12)" "nat (n div 12) < 10000" using b(1,2) by linarith+
  ultimately have "10 ^ 3 \<le> nat (n div 12)" "nat (n div 12) < 10 ^ Suc 3" by (simp_all only:)
  then have "str_nat (nat (n div 12)) = chiffres (Suc 3) (nat (n div 12))"
    by (rule str_nat_chiffres)
  moreover have "Suc 3 = 4" by simp
  moreover have "\<not> n div 12 < 0" using b(1) by linarith
  ultimately have y: "str_int (n div 12) = chiffres 4 (nat (n div 12))"
    by (simp only: str_int_def if_False)
  have "nat (n mod 12 + 1) < 100" using b(3,4) by linarith
  then have m: "chiffres 2 (nat (n mod 12 + 1)) =
      [digit_char (nat (n mod 12 + 1) div 10), digit_char (nat (n mod 12 + 1) mod 10)]"
    by (rule chiffres_2)
  show ?thesis
    unfolding jeton_du_mois_def strftime_Ym_def by (simp add: y m)
qed

lemma jeton_du_mois_mono:
  assumes "12000 \<le> n1" and "n1 \<le> n2" and "n2 < 120000"
  shows "str_le (jeton_du_mois n1) (jeton_du_mois n2)"
proof -
  have r1: "12000 \<le> n1" "n1 < 120000" and r2: "12000 \<le> n2" "n2 < 120000"
    using assms by linarith+
  note b1 = mois_index_bounds [OF r1] and b2 = mois_index_bounds [OF r2]
  note j1 = jeton_du_mois_chiffres [OF r1] and j2 = jeton_du_mois_chiffres [OF r2]
  have p4: "(10::nat) ^ 4 = 10000" and p2: "(10::nat) ^ 2 = 100" by simp_all
  have le: "n1 div 12 \<le> n2 div 12" using assms(2) by (intro zdiv_mono1) simp_all
  show ?thesis
  proof (cases "n1 div 12 = n2 div 12")
    case False
    then have "nat (n1 div 12) < nat (n2 div 12)" using le b1(1) by linarith
    moreover have "nat (n2 div 12) < 10 ^ 4" unfolding p4 using b2(2) by linarith
    ultimately show ?thesis unfolding j1 j2 by (rule str_le_chiffres)
  next
    case True
    have "n1 = 12 * (n1 div 12) + n1 mod 12" "n2 = 12 * (n2 div 12) + n2 mod 12" by simp_all
    then have m: "n1 mod 12 \<le> n2 mod 12" using True assms(2) by linarith
    show ?thesis
    proof (cases "n1 mod 12 = n2 mod 12")
      case same: True
      show ?thesis unfolding j1 j2 by (simp only: True same str_le_refl)
    next
      case False
      then have "nat (n1 mod 12 + 1) < nat (n2 mod 12 + 1)" using m b1(3) by linarith
      moreover have "nat (n2 mod 12 + 1) < 10 ^ 2" unfolding p2 using b2(3,4) by linarith
      ultimately have "str_le (chiffres 2 (nat (n1 mod 12 + 1)) @ [])
          (chiffres 2 (nat (n2 mod 12 + 1)) @ [])"
        by (rule str_le_chiffres)
      then have "str_le (CHR ''-'' # chiffres 2 (nat (n1 mod 12 + 1)))
          (CHR ''-'' # chiffres 2 (nat (n2 mod 12 + 1)))"
        by simp
      then show ?thesis unfolding j1 j2 by (simp only: True str_le_prefix)
    qed
  qed
qed

lemma jeton_du_mois_inj:
  assumes "12000 \<le> n1" and "n1 < 120000" and "12000 \<le> n2" and "n2 < 120000"
    and "jeton_du_mois n1 = jeton_du_mois n2"
  shows "n1 = n2"
proof -
  note b1 = mois_index_bounds [OF assms(1,2)] and b2 = mois_index_bounds [OF assms(3,4)]
  have p4: "(10::nat) ^ 4 = 10000" and p2: "(10::nat) ^ 2 = 100" by simp_all
  have "chiffres 4 (nat (n1 div 12)) @ CHR ''-'' # chiffres 2 (nat (n1 mod 12 + 1)) =
        chiffres 4 (nat (n2 div 12)) @ CHR ''-'' # chiffres 2 (nat (n2 mod 12 + 1))"
    using assms(5)
    by (simp only: jeton_du_mois_chiffres [OF assms(1,2)] jeton_du_mois_chiffres [OF assms(3,4)])
  moreover have "length (chiffres 4 (nat (n1 div 12))) = length (chiffres 4 (nat (n2 div 12)))"
    by (simp only: length_chiffres)
  ultimately have c4: "chiffres 4 (nat (n1 div 12)) = chiffres 4 (nat (n2 div 12))"
    and c2: "chiffres 2 (nat (n1 mod 12 + 1)) = chiffres 2 (nat (n2 mod 12 + 1))"
    by auto
  have "nat (n1 div 12) < 10 ^ 4" "nat (n2 div 12) < 10 ^ 4"
    unfolding p4 using b1(2) b2(2) by linarith+
  then have "nat (n1 div 12) = nat (n2 div 12)"
    using c4 by (rule chiffres_inj)
  then have d: "n1 div 12 = n2 div 12" using b1(1) b2(1) by linarith
  have "nat (n1 mod 12 + 1) < 10 ^ 2" "nat (n2 mod 12 + 1) < 10 ^ 2"
    unfolding p2 using b1(3,4) b2(3,4) by linarith+
  then have "nat (n1 mod 12 + 1) = nat (n2 mod 12 + 1)"
    using c2 by (rule chiffres_inj)
  then have m: "n1 mod 12 = n2 mod 12" using b1(3) b2(3) by linarith
  have "n1 = 12 * (n1 div 12) + n1 mod 12" "n2 = 12 * (n2 div 12) + n2 mod 12" by simp_all
  then show ?thesis using d m by linarith
qed
subsection \<open>Going back by months\<close>

lemma div_mod_12:
  fixes q r :: int
  assumes "0 \<le> r" and "r < 12"
  shows "(q * 12 + r) div 12 = q" and "(q * 12 + r) mod 12 = r"
  using assms by simp_all

lemma date_minus_months_mois:
  assumes v: "date_courante_valide today" and i: "0 \<le> i" "i \<le> 12"
  shows "\<exists>d. date_minus_months today i = Some d
           \<and> year d = (mois_index today - i) div 12
           \<and> month d = (mois_index today - i) mod 12 + 1"
proof -
  have b: "1001 \<le> year today" "year today \<le> 9999" "1 \<le> month today" "month today \<le> 12"
    using v by (simp_all add: date_courante_valide_def)
  consider (douze) "i = 12" | (recule) "i < 12" "month today - i < 1"
    | (meme) "i < 12" "1 \<le> month today - i"
    using i by linarith
  then show ?thesis
  proof cases
    case douze
    have "mois_index today - i = (year today - 1) * 12 + (month today - 1)"
      by (simp add: mois_index_def douze)
    moreover have "0 \<le> month today - 1" "month today - 1 < 12" using b by linarith+
    ultimately have "(mois_index today - i) div 12 = year today - 1"
      "(mois_index today - i) mod 12 = month today - 1"
      by (simp_all only: div_mod_12)
    moreover have "date_minus_months today i =
        Some \<lparr>year = year today - 1, month = month today,
              day = min (monthrange_days (year today - 1) (month today)) (day today)\<rparr>"
      using b by (simp add: date_minus_months_def douze Let_def)
    ultimately show ?thesis by simp
  next
    case recule
    have im: "i div 12 = 0" "i mod 12 = i" using i(1) recule(1) by simp_all
    have "mois_index today - i = (year today - 1) * 12 + (month today - i + 11)"
      by (simp add: mois_index_def)
    moreover have "0 \<le> month today - i + 11" "month today - i + 11 < 12"
      using b recule by linarith+
    ultimately have "(mois_index today - i) div 12 = year today - 1"
      "(mois_index today - i) mod 12 = month today - i + 11"
      by (simp_all only: div_mod_12)
    moreover have "date_minus_months today i =
        Some \<lparr>year = year today - 1, month = month today - i + 12,
              day = min (monthrange_days (year today - 1) (month today - i + 12)) (day today)\<rparr>"
      using b recule by (simp add: date_minus_months_def im Let_def)
    ultimately show ?thesis by simp
  next
    case meme
    have im: "i div 12 = 0" "i mod 12 = i" using i(1) meme(1) by simp_all
    have "mois_index today - i = year today * 12 + (month today - i - 1)"
      by (simp add: mois_index_def)
    moreover have "0 \<le> month today - i - 1" "month today - i - 1 < 12"
      using b meme i by linarith+
    ultimately have "(mois_index today - i) div 12 = year today"
      "(mois_index today - i) mod 12 = month today - i - 1"
      by (simp_all only: div_mod_12)
    moreover have "month today - i \<le> 12" using b i by linarith
    then have "date_minus_months today i =
        Some \<lparr>year = year today, month = month today - i,
              day = min (monthrange_days (year today) (month today - i)) (day today)\<rparr>"
      using b meme by (simp add: date_minus_months_def im Let_def)
    ultimately show ?thesis by simp
  qed
qed

lemma mois_index_range:
  assumes "date_courante_valide today" and "0 \<le> i" and "i \<le> 12"
  shows "12000 \<le> mois_index today - i" and "mois_index today - i < 120000"
  using assms by (simp_all add: date_courante_valide_def mois_index_def)

lemma strftime_Ym_jeton:
  "year d = n div 12 \<Longrightarrow> month d = n mod 12 + 1 \<Longrightarrow> strftime_Ym d = jeton_du_mois n"
  by (simp add: strftime_Ym_def jeton_du_mois_def)

lemma jeton_mois_courant:
  assumes "date_courante_valide today"
  shows "jeton_du_mois (mois_index today) = strftime_Ym today"
proof -
  obtain d where d: "date_minus_months today 0 = Some d"
    "year d = (mois_index today - 0) div 12" "month d = (mois_index today - 0) mod 12 + 1"
    using date_minus_months_mois [OF assms, of 0] by auto
  have "year d = year today" "month d = month today"
    using d(1) assms by (auto simp: date_minus_months_def Let_def date_courante_valide_def
        split: if_splits)
  then show ?thesis using d(2,3) by (simp add: strftime_Ym_def jeton_du_mois_def)
qed

lemma revenus_boucle_mois:
  assumes "date_courante_valide today"
  shows "(\<forall>i \<in> set indices. 0 \<le> i \<and> i \<le> 12) \<Longrightarrow>
         revenus_boucle today d indices =
           Some (map (\<lambda>i. \<lparr>rm_mois = libelle_du_mois (mois_index today - i),
                            rm_total = get_or_0 d (jeton_du_mois (mois_index today - i))\<rparr>)
                   indices)"
proof (induction indices)
  case Nil
  then show ?case by simp
next
  case (Cons i indices)
  then have i: "0 \<le> i" "i \<le> 12" by simp_all
  obtain mois_date where m: "date_minus_months today i = Some mois_date"
    "year mois_date = (mois_index today - i) div 12"
    "month mois_date = (mois_index today - i) mod 12 + 1"
    using date_minus_months_mois [OF assms i] by blast
  have "strftime_Ym mois_date = jeton_du_mois (mois_index today - i)"
    using m(2,3) by (rule strftime_Ym_jeton)
  moreover have "MOIS_NOMS_COURTS ! nat (month mois_date) @ '' '' @ str_int (year mois_date) =
      libelle_du_mois (mois_index today - i)"
    by (simp add: libelle_du_mois_def m(2,3))
  ultimately show ?case using Cons m(1) by simp
qed

lemma rev_map_minus_upto: "rev (map (\<lambda>i. n - i) [a..b]) = [n - b .. n - a]"
proof (induction a b rule: upto.induct)
  case (1 i j)
  show ?case
  proof (cases "i \<le> j")
    case True
    have "rev (map (\<lambda>i. n - i) [i..j]) = rev (map (\<lambda>i. n - i) [i + 1..j]) @ [n - i]"
      using True by (simp add: upto_rec1)
    also have "\<dots> = [n - j .. n - (i + 1)] @ [n - i]" using 1 True by simp
    also have "\<dots> = [n - j .. n - i]"
    proof -
      have e: "n - (i + 1) = n - i - 1" by linarith
      have "n - j \<le> n - i" using True by linarith
      then have "[n - j .. n - i] = [n - j .. n - i - 1] @ [n - i]" by (rule upto_rec2)
      then show ?thesis by (simp only: e)
    qed
    finally show ?thesis .
  next
    case False
    then show ?thesis by simp
  qed
qed

subsection \<open>Sums by token\<close>

lemma get_or_0_revenus_dict:
  assumes "str_le mois_min jeton"
  shows "get_or_0 (revenus_dict db mois_min) jeton = total_du_mois db jeton"
proof -
  have "filter (\<lambda>p. p_mois_concerne p = jeton)
          (filter (\<lambda>p. str_le mois_min (p_mois_concerne p)) (paiements db)) =
        filter (\<lambda>p. p_mois_concerne p = jeton) (paiements db)"
    using assms by (induction "paiements db") (auto intro: filter_cong)
  then show ?thesis
    by (simp add: revenus_dict_def get_or_0_group_by_sum total_du_mois_def)
qed

lemma sum_filter_insert:
  "t \<notin> A \<Longrightarrow>
   sum_list (map p_montant (filter (\<lambda>p. cle p = t \<or> cle p \<in> A) ps)) =
     sum_list (map p_montant (filter (\<lambda>p. cle p = t) ps)) +
     sum_list (map p_montant (filter (\<lambda>p. cle p \<in> A) ps))"
  by (induction ps) auto

lemma sum_par_cle:
  "distinct ts \<Longrightarrow>
   sum_list (map (\<lambda>t. sum_list (map p_montant (filter (\<lambda>p. cle p = t) ps))) ts) =
     sum_list (map p_montant (filter (\<lambda>p. cle p \<in> set ts) ps))"
  by (induction ts) (simp_all add: sum_filter_insert)
subsection \<open>The series\<close>

lemma douze_mois_range:
  assumes "date_courante_valide today" and "n \<in> set (douze_mois today)"
  shows "12000 \<le> n" and "n < 120000" and "mois_index today - 12 \<le> n"
proof -
  have n: "mois_index today - 11 \<le> n" "n \<le> mois_index today"
    using assms(2) by (simp_all add: douze_mois_def)
  have "12000 \<le> mois_index today - 12" "mois_index today - 0 < 120000"
    using assms(1) by (intro mois_index_range; simp)+
  then show "12000 \<le> n" "n < 120000" "mois_index today - 12 \<le> n" using n by linarith+
qed

lemma distinct_jetons_douze_mois:
  assumes "date_courante_valide today"
  shows "distinct (map jeton_du_mois (douze_mois today))"
proof -
  have "inj_on jeton_du_mois (set (douze_mois today))"
  proof (rule inj_onI)
    fix a b
    assume "a \<in> set (douze_mois today)" "b \<in> set (douze_mois today)"
      "jeton_du_mois a = jeton_du_mois b"
    then show "a = b"
      using douze_mois_range [OF assms] by (intro jeton_du_mois_inj) blast+
  qed
  then show ?thesis by (simp add: distinct_map douze_mois_def)
qed

lemma statistiques_revenus_eq:
  assumes v: "date_courante_valide today"
  shows "statistiques_revenus db today =
           Some (map (\<lambda>n. \<lparr>rm_mois = libelle_du_mois n,
                            rm_total = total_du_mois db (jeton_du_mois n)\<rparr>)
                   (douze_mois today))"
proof -
  obtain d12 where d12: "date_minus_months today 12 = Some d12"
    "year d12 = (mois_index today - 12) div 12" "month d12 = (mois_index today - 12) mod 12 + 1"
    using date_minus_months_mois [OF v, of 12] by auto
  have mmin: "strftime_Ym d12 = jeton_du_mois (mois_index today - 12)"
    using d12(2,3) by (rule strftime_Ym_jeton)
  have idx: "\<forall>i \<in> set (rev [0 .. 11]). 0 \<le> i \<and> i \<le> 12" by auto
  have douze: "map (\<lambda>i. mois_index today - i) (rev [0 .. 11]) = douze_mois today"
    using rev_map_minus_upto [of "mois_index today" 0 11]
    by (simp only: rev_map douze_mois_def diff_zero)
  have "statistiques_revenus db today =
      Some (map (\<lambda>i. \<lparr>rm_mois = libelle_du_mois (mois_index today - i),
                       rm_total = get_or_0 (revenus_dict db (strftime_Ym d12))
                                    (jeton_du_mois (mois_index today - i))\<rparr>)
              (rev [0 .. 11]))"
    unfolding statistiques_revenus_def using d12(1) revenus_boucle_mois [OF v idx] by simp
  also have "\<dots> =
      Some (map (\<lambda>n. \<lparr>rm_mois = libelle_du_mois n,
                       rm_total = get_or_0 (revenus_dict db (strftime_Ym d12)) (jeton_du_mois n)\<rparr>)
              (map (\<lambda>i. mois_index today - i) (rev [0 .. 11])))"
    by (simp only: map_map comp_def)
  also have "\<dots> =
      Some (map (\<lambda>n. \<lparr>rm_mois = libelle_du_mois n,
                       rm_total = get_or_0 (revenus_dict db (strftime_Ym d12)) (jeton_du_mois n)\<rparr>)
              (douze_mois today))"
    by (simp only: douze)
  also have "map (\<lambda>n. \<lparr>rm_mois = libelle_du_mois n,
                       rm_total = get_or_0 (revenus_dict db (strftime_Ym d12)) (jeton_du_mois n)\<rparr>)
              (douze_mois today) =
             map (\<lambda>n. \<lparr>rm_mois = libelle_du_mois n,
                       rm_total = total_du_mois db (jeton_du_mois n)\<rparr>)
              (douze_mois today)"
  proof (rule map_cong [OF refl])
    fix n
    assume n: "n \<in> set (douze_mois today)"
    have "12000 \<le> mois_index today - 12"
      using v by (intro mois_index_range) simp_all
    then have "str_le (jeton_du_mois (mois_index today - 12)) (jeton_du_mois n)"
      using douze_mois_range [OF v n] by (intro jeton_du_mois_mono)
    then have "get_or_0 (revenus_dict db (strftime_Ym d12)) (jeton_du_mois n) =
        total_du_mois db (jeton_du_mois n)"
      unfolding mmin by (rule get_or_0_revenus_dict)
    then show "\<lparr>rm_mois = libelle_du_mois n,
                rm_total = get_or_0 (revenus_dict db (strftime_Ym d12)) (jeton_du_mois n)\<rparr> =
              \<lparr>rm_mois = libelle_du_mois n, rm_total = total_du_mois db (jeton_du_mois n)\<rparr>"
      by simp
  qed
  finally show ?thesis .
qed

text \<open>
  Claim C2: when today is a date of the calendar (from year 1001 on), the revenue series
  is computed and has exactly 12 entries; they stand, in this order, for the twelve
  consecutive months that end at the current month, oldest first; each entry carries the
  label of its month and, as its total, the sum of the amounts of all the payments whose
  month token equals the \<open>YYYY-MM\<close> token of that month (0 when there is none); and the
  sum of the twelve totals is the sum of the amounts of all the payments whose month
  token is the token of one of these twelve months.
\<close>

theorem statistiques_revenus_douze_mois:
  assumes "date_courante_valide today"
  shows "\<exists>entries. statistiques_revenus db today = Some entries
    \<and> length entries = 12
    \<and> entries = map (\<lambda>n. \<lparr>rm_mois = libelle_du_mois n,
                             rm_total = total_du_mois db (jeton_du_mois n)\<rparr>)
                    [mois_index today - 11 .. mois_index today]
    \<and> jeton_du_mois (mois_index today) = strftime_Ym today
    \<and> sum_list (map rm_total entries) =
        sum_list (map p_montant
          (filter (\<lambda>p. p_mois_concerne p \<in>
                         jeton_du_mois ` {mois_index today - 11 .. mois_index today})
             (paiements db)))"
proof -
  let ?entries = "map (\<lambda>n. \<lparr>rm_mois = libelle_du_mois n,
                             rm_total = total_du_mois db (jeton_du_mois n)\<rparr>)
                    (douze_mois today)"
  have "statistiques_revenus db today = Some ?entries"
    using assms by (rule statistiques_revenus_eq)
  moreover have "length ?entries = 12" by (simp add: douze_mois_def)
  moreover have "jeton_du_mois (mois_index today) = strftime_Ym today"
    using assms by (rule jeton_mois_courant)
  moreover have "sum_list (map rm_total ?entries) =
        sum_list (map p_montant
          (filter (\<lambda>p. p_mois_concerne p \<in>
                         jeton_du_mois ` {mois_index today - 11 .. mois_index today})
             (paiements db)))"
  proof -
    have "sum_list (map rm_total ?entries) =
        sum_list (map (\<lambda>t. sum_list (map p_montant
                   (filter (\<lambda>p. p_mois_concerne p = t) (paiements db))))
                 (map jeton_du_mois (douze_mois today)))"
      by (simp add: comp_def total_du_mois_def)
    also have "\<dots> = sum_list (map p_montant
          (filter (\<lambda>p. p_mois_concerne p \<in> set (map jeton_du_mois (douze_mois today)))
             (paiements db)))"
      using distinct_jetons_douze_mois [OF assms] by (rule sum_par_cle)
    finally show ?thesis by (simp add: douze_mois_def)
  qed
  ultimately show ?thesis by (simp add: douze_mois_def)
qed

lemma digit_char_eval:
  "digit_char 0 = CHR ''0''" "digit_char 1 = CHR ''1''" "digit_char 2 = CHR ''2''"
  "digit_char 3 = CHR ''3''" "digit_char 4 = CHR ''4''" "digit_char 5 = CHR ''5''"
  "digit_char 6 = CHR ''6''" "digit_char 7 = CHR ''7''" "digit_char 8 = CHR ''8''"
  "digit_char 9 = CHR ''9''" "digit_char (Suc 0) = CHR ''1''"
  by code_simp+

lemma douze_mois_ex:
  "date_courante_valide \<lparr>year = 2024, month = 3, day = 20\<rparr>"
  "mois_index \<lparr>year = 2024, month = 3, day = 20\<rparr> = 24290"
  "[24279 .. 24290] =
     [24279, 24280, 24281, 24282, 24283, 24284, 24285, 24286, 24287, 24288, 24289, 24290 :: int]"
  by (simp_all add: date_courante_valide_def mois_index_def monthrange_days_def upto_rec_numeral)

lemma jetons_ex:
  "map jeton_du_mois [24279, 24280, 24281, 24282, 24283, 24284] =
     [''2023-04'', ''2023-05'', ''2023-06'', ''2023-07'', ''2023-08'', ''2023-09'']"
  "map jeton_du_mois [24285, 24286, 24287, 24288, 24289, 24290] =
     [''2023-10'', ''2023-11'', ''2023-12'', ''2024-01'', ''2024-02'', ''2024-03'']"
  by (simp_all add: jeton_du_mois_def strftime_Ym_def str_int_def digit_char_eval)

lemma totaux_ex:
  "map (total_du_mois ex_db)
     [''2023-04'', ''2023-05'', ''2023-06'', ''2023-07'', ''2023-08'', ''2023-09'',
      ''2023-10'', ''2023-11'', ''2023-12'', ''2024-01'', ''2024-02'', ''2024-03''] =
     [0, 0, 0, 0, 0, 0, 0, 0, 1000, 0, 1400, 1460]"
  by (simp add: total_du_mois_def ex_db_def ex_paiement_def)

theorem statistiques_revenus_douze_mois_witness:
  "date_courante_valide \<lparr>year = 2024, month = 3, day = 20\<rparr>
   \<and> length (the (statistiques_revenus ex_db \<lparr>year = 2024, month = 3, day = 20\<rparr>)) = 12
   \<and> map rm_total (the (statistiques_revenus ex_db \<lparr>year = 2024, month = 3, day = 20\<rparr>)) =
       [0, 0, 0, 0, 0, 0, 0, 0, 1000, 0, 1400, 1460]
   \<and> sum_list (map p_montant
        (filter (\<lambda>p. p_mois_concerne p \<in> jeton_du_mois `
                   {mois_index \<lparr>year = 2024, month = 3, day = 20\<rparr> - 11 ..
                    mois_index \<lparr>year = 2024, month = 3, day = 20\<rparr>})
           (paiements ex_db))) = 1000 + 1400 + 1460"
proof -
  obtain entries where e:
    "statistiques_revenus ex_db \<lparr>year = 2024, month = 3, day = 20\<rparr> = Some entries"
    "length entries = 12"
    "entries = map (\<lambda>n. \<lparr>rm_mois = libelle_du_mois n,
                           rm_total = total_du_mois ex_db (jeton_du_mois n)\<rparr>)
                 [mois_index \<lparr>year = 2024, month = 3, day = 20\<rparr> - 11 ..
                  mois_index \<lparr>year = 2024, month = 3, day = 20\<rparr>]"
    "sum_list (map rm_total entries) =
       sum_list (map p_montant
        (filter (\<lambda>p. p_mois_concerne p \<in> jeton_du_mois `
                   {mois_index \<lparr>year = 2024, month = 3, day = 20\<rparr> - 11 ..
                    mois_index \<lparr>year = 2024, month = 3, day = 20\<rparr>})
           (paiements ex_db)))"
    using statistiques_revenus_douze_mois [OF douze_mois_ex(1), of ex_db] by blast
  have "map rm_total entries =
      map (total_du_mois ex_db) (map jeton_du_mois
        ([24279, 24280, 24281, 24282, 24283, 24284] @ [24285, 24286, 24287, 24288, 24289, 24290]))"
    unfolding e(3) douze_mois_ex(2) by (simp add: douze_mois_ex(3) comp_def)
  also have "\<dots> = [0, 0, 0, 0, 0, 0, 0, 0, 1000, 0, 1400, 1460]"
    unfolding map_append jetons_ex using totaux_ex by simp
  finally have t: "map rm_total entries = [0, 0, 0, 0, 0, 0, 0, 0, 1000, 0, 1400, 1460]" .
  then have "sum_list (map rm_total entries) = 1000 + 1400 + 1460" by simp
  then show ?thesis using e(1,2,4) t douze_mois_ex(1) by simp
qed

end
